theory Spec2Isabelle
  imports Main "HOL-Library.Word"
begin

unbundle bit_operations_syntax

section \<open>The byte-stream event loop (event-loop.h)\<close>

subsection \<open>Build configuration\<close>

text \<open>
  The header is compiled under three macros that come from outside it:
  \<^verbatim>\<open>_WIN32\<close> (the compiler), \<^verbatim>\<open>QLJS_HAVE_POLL\<close> and \<^verbatim>\<open>QLJS_HAVE_UNISTD_H\<close> (have.h).
  \<^verbatim>\<open>run\<close> compiles in two cases only: with \<^verbatim>\<open>QLJS_HAVE_POLL\<close> and without
  \<^verbatim>\<open>_WIN32\<close> (the \<^verbatim>\<open>pollfds\<close> array has its one entry), or without \<^verbatim>\<open>QLJS_HAVE_POLL\<close>
  and with \<^verbatim>\<open>_WIN32\<close> (the other combinations hit \<^verbatim>\<open>#error\<close> or an empty array).
  These two cases are the constructors of \<open>platform\<close>. \<^verbatim>\<open>QLJS_ASSERT\<close> and the check
  inside \<^verbatim>\<open>narrow_cast\<close> are active in debug builds only; \<open>assertions\<close> says which
  build it is.
\<close>

datatype platform = Have_poll | Windows

record build_config =
  target :: platform
  have_unistd_h :: bool
  assertions :: bool

definition QLJS_EVENT_LOOP_READ_PIPE_NON_BLOCKING :: "build_config \<Rightarrow> bool" where
  "QLJS_EVENT_LOOP_READ_PIPE_NON_BLOCKING b = (target b \<noteq> Windows)"

subsection \<open>What the operating system answers\<close>

type_synonym string8 = string

record file_read_result =
  at_end_of_file :: bool
  bytes_read :: int
  error_message :: "string option"

text \<open>
  One call of \<^verbatim>\<open>pipe.read(buffer.data(), buffer.size())\<close>: the result structure, the
  value \<^verbatim>\<open>errno\<close> has afterwards, and the content of the buffer afterwards. Only the
  first \<open>bytes_read\<close> bytes of the buffer are ever looked at.
\<close>

record read_event =
  read_result :: file_read_result
  errno :: int
  buffer :: string8

definition EAGAIN :: int where
  "EAGAIN = 11"

text \<open>One call of \<^verbatim>\<open>poll\<close> on the single \<^verbatim>\<open>pollfd\<close>: its return value and \<^verbatim>\<open>revents\<close>.\<close>

record poll_result =
  rc :: int
  revents :: "16 word"

definition POLLIN :: "16 word" where
  "POLLIN = 0x0001"

definition POLLERR :: "16 word" where
  "POLLERR = 0x0008"

subsection \<open>The loop\<close>

text \<open>
  The class has one data member, \<^verbatim>\<open>bool done_ = false\<close>; it is the field \<open>done_flag\<close>
  here (a name cannot end in an underscore).
\<close>

record event_loop =
  done_flag :: bool

definition event_loop_init :: event_loop where
  "event_loop_init = \<lparr>done_flag = False\<rparr>"

text \<open>
  \<^verbatim>\<open>QLJS_UNIMPLEMENTED\<close>, \<^verbatim>\<open>QLJS_UNREACHABLE\<close> and a failed \<^verbatim>\<open>QLJS_ASSERT\<close> end the process.
\<close>

datatype crash = Unimplemented | Unreachable | Assertion_failed

text \<open>What the loop does to the outside, in order.\<close>

datatype action = Read_pipe read_event | Poll_pipe poll_result | Append string8

datatype 'a exec = Ok 'a "action list" | Abort crash "action list"

text \<open>
  \<^verbatim>\<open>narrow_cast<std::size_t>(x)\<close>: a debug build traps when the value does not fit; a
  release build converts modulo \<open>2 ^ 64\<close>.
\<close>

definition narrow_cast_size_t :: "build_config \<Rightarrow> int \<Rightarrow> nat option" where
  "narrow_cast_size_t b x =
     (if 0 \<le> x \<and> x < 2 ^ 64 then Some (nat x)
      else if assertions b then None
      else Some (nat (x mod 2 ^ 64)))"

text \<open>
  \<^verbatim>\<open>read_from_pipe\<close>. \<open>nb\<close> is what \<^verbatim>\<open>is_pipe_non_blocking()\<close> answers for the pipe the
  delegate hands out.
\<close>

definition read_from_pipe ::
  "build_config \<Rightarrow> bool \<Rightarrow> read_event \<Rightarrow> event_loop \<Rightarrow> event_loop exec" where
  "read_from_pipe b nb ev s =
     (if assertions b \<and> nb \<noteq> QLJS_EVENT_LOOP_READ_PIPE_NON_BLOCKING b
      then Abort Assertion_failed []
      else if at_end_of_file (read_result ev)
      then Ok (s\<lparr>done_flag := True\<rparr>) [Read_pipe ev]
      else if error_message (read_result ev) \<noteq> None
      then (if have_unistd_h b \<and> errno ev = EAGAIN
            then (if QLJS_EVENT_LOOP_READ_PIPE_NON_BLOCKING b
                  then Ok s [Read_pipe ev]
                  else Abort Unreachable [Read_pipe ev])
            else Abort Unimplemented [Read_pipe ev])
      else if assertions b \<and> bytes_read (read_result ev) = 0
      then Abort Assertion_failed [Read_pipe ev]
      else (case narrow_cast_size_t b (bytes_read (read_result ev)) of
              None \<Rightarrow> Abort Assertion_failed [Read_pipe ev]
            | Some n \<Rightarrow> Ok s [Read_pipe ev, Append (take n (buffer ev))]))"

text \<open>
  The part of the body of \<^verbatim>\<open>run\<close> after \<^verbatim>\<open>read_from_pipe\<close>: the \<^verbatim>\<open>poll\<close> with timeout
  \<open>-1\<close> where the build has it, nothing on Windows.
\<close>

definition wait_for_pipe :: "build_config \<Rightarrow> poll_result \<Rightarrow> unit exec" where
  "wait_for_pipe b p =
     (case target b of
        Windows \<Rightarrow> Ok () []
      | Have_poll \<Rightarrow>
          if rc p = - 1 then Abort Unimplemented [Poll_pipe p]
          else if assertions b \<and> \<not> rc p > 0 then Abort Assertion_failed [Poll_pipe p]
          else if revents p AND POLLIN \<noteq> 0 then Ok () [Poll_pipe p]
          else if revents p AND POLLERR \<noteq> 0 then Abort Unimplemented [Poll_pipe p]
          else Ok () [Poll_pipe p])"

datatype outcome = Returned | Crashed crash | Pending

record run_result =
  outcome :: outcome
  final :: event_loop
  trace :: "action list"

text \<open>
  \<^verbatim>\<open>run\<close>. The reads the pipe will answer are a list, consumed one per iteration; the
  result of the \<^verbatim>\<open>poll\<close> of iteration \<open>k\<close> is \<open>polls k\<close>. Where the list ends with the
  loop still running, the outcome is \<open>Pending\<close>: \<^verbatim>\<open>run\<close> has not returned.
\<close>

fun run_loop ::
  "build_config \<Rightarrow> bool \<Rightarrow> (nat \<Rightarrow> poll_result) \<Rightarrow> nat \<Rightarrow> read_event list \<Rightarrow> event_loop
     \<Rightarrow> run_result" where
  "run_loop b nb polls k [] s =
     (if done_flag s then \<lparr>outcome = Returned, final = s, trace = []\<rparr>
      else \<lparr>outcome = Pending, final = s, trace = []\<rparr>)"
| "run_loop b nb polls k (ev # evs) s =
     (if done_flag s then \<lparr>outcome = Returned, final = s, trace = []\<rparr>
      else (case read_from_pipe b nb ev s of
              Abort c tr \<Rightarrow> \<lparr>outcome = Crashed c, final = s, trace = tr\<rparr>
            | Ok s' tr \<Rightarrow>
                if done_flag s' then \<lparr>outcome = Returned, final = s', trace = tr\<rparr>
                else (case wait_for_pipe b (polls k) of
                        Abort c tr' \<Rightarrow> \<lparr>outcome = Crashed c, final = s', trace = tr @ tr'\<rparr>
                      | Ok u tr' \<Rightarrow>
                          (let r = run_loop b nb polls (Suc k) evs s'
                           in r\<lparr>trace := tr @ tr' @ trace r\<rparr>))))"

definition run ::
  "build_config \<Rightarrow> bool \<Rightarrow> read_event list \<Rightarrow> (nat \<Rightarrow> poll_result) \<Rightarrow> event_loop
     \<Rightarrow> run_result" where
  "run b nb evs polls s = run_loop b nb polls 0 evs s"

text \<open>The chunks handed to the delegate's \<^verbatim>\<open>append\<close>, in order.\<close>

fun appends :: "action list \<Rightarrow> string8 list" where
  "appends [] = []"
| "appends (Append c # as) = c # appends as"
| "appends (a # as) = appends as"

subsection \<open>Kinds of read, as the loop tells them apart\<close>

definition is_eof :: "read_event \<Rightarrow> bool" where
  "is_eof ev = at_end_of_file (read_result ev)"

definition is_error :: "read_event \<Rightarrow> bool" where
  "is_error ev = (\<not> at_end_of_file (read_result ev) \<and> error_message (read_result ev) \<noteq> None)"

definition is_retry :: "read_event \<Rightarrow> bool" where
  "is_retry ev = (is_error ev \<and> errno ev = EAGAIN)"

definition is_fatal :: "read_event \<Rightarrow> bool" where
  "is_fatal ev = (is_error ev \<and> errno ev \<noteq> EAGAIN)"

definition is_data :: "read_event \<Rightarrow> bool" where
  "is_data ev = (\<not> at_end_of_file (read_result ev) \<and> error_message (read_result ev) = None)"

definition is_chunk :: "read_event \<Rightarrow> bool" where
  "is_chunk ev = (is_data ev \<and> 0 < bytes_read (read_result ev) \<and> bytes_read (read_result ev) < 2 ^ 64)"

definition chunk_of :: "read_event \<Rightarrow> string8" where
  "chunk_of ev = take (nat (bytes_read (read_result ev))) (buffer ev)"

text \<open>
  The delegate's side of the contract: the pipe it hands out is in the mode the build
  expects (this is what the first assertion of \<^verbatim>\<open>read_from_pipe\<close> checks).
\<close>

definition mode_ok :: "build_config \<Rightarrow> bool \<Rightarrow> bool" where
  "mode_ok b nb = (\<not> assertions b \<or> nb = QLJS_EVENT_LOOP_READ_PIPE_NON_BLOCKING b)"

text \<open>A \<^verbatim>\<open>poll\<close> that lets the loop go on to its next read.\<close>

definition poll_ready :: "build_config \<Rightarrow> poll_result \<Rightarrow> bool" where
  "poll_ready b p =
     (target b = Windows \<or>
      (rc p \<noteq> - 1 \<and> (\<not> assertions b \<or> 0 < rc p) \<and>
       (revents p AND POLLIN \<noteq> 0 \<or> revents p AND POLLERR = 0)))"

subsection \<open>The byte source of the specification\<close>

text \<open>
  The specification describes a byte source by what it emits: chunks, the "no data yet"
  condition, and end-of-stream. These are the reads such a source answers with. A read of
  zero bytes at end-of-stream is how \<^verbatim>\<open>read\<close> reports the end; an emitted empty chunk is a
  read of zero bytes that is not the end.
\<close>

definition chunk_read :: "string8 \<Rightarrow> read_event" where
  "chunk_read c =
     \<lparr>read_result = \<lparr>at_end_of_file = False, bytes_read = int (length c), error_message = None\<rparr>,
      errno = 0, buffer = c\<rparr>"

definition eof_read :: read_event where
  "eof_read =
     \<lparr>read_result = \<lparr>at_end_of_file = True, bytes_read = 0, error_message = None\<rparr>,
      errno = 0, buffer = []\<rparr>"

definition again_read :: read_event where
  "again_read =
     \<lparr>read_result = \<lparr>at_end_of_file = False, bytes_read = 0,
        error_message = Some ''Resource temporarily unavailable''\<rparr>,
      errno = EAGAIN, buffer = []\<rparr>"

text \<open>A read that fails with \<^verbatim>\<open>EIO\<close>.\<close>

definition failed_read :: read_event where
  "failed_read =
     \<lparr>read_result = \<lparr>at_end_of_file = False, bytes_read = 0,
        error_message = Some ''Input/output error''\<rparr>,
      errno = 5, buffer = []\<rparr>"

definition readable :: poll_result where
  "readable = \<lparr>rc = 1, revents = POLLIN\<rparr>"

definition posix_build :: "bool \<Rightarrow> build_config" where
  "posix_build a = \<lparr>target = Have_poll, have_unistd_h = True, assertions = a\<rparr>"

definition windows_build :: "bool \<Rightarrow> build_config" where
  "windows_build a = \<lparr>target = Windows, have_unistd_h = False, assertions = a\<rparr>"

subsection \<open>Reading a run\<close>

text \<open>
  A read the loop gets past: a non-empty chunk, or the "no data yet" condition where the
  build retries it.
\<close>

definition benign :: "build_config \<Rightarrow> read_event \<Rightarrow> bool" where
  "benign b ev = (is_chunk ev \<or> (is_retry ev \<and> have_unistd_h b \<and> target b = Have_poll))"

text \<open>The reads the loop made, in order.\<close>

fun read_events :: "action list \<Rightarrow> read_event list" where
  "read_events [] = []"
| "read_events (Read_pipe ev # as) = ev # read_events as"
| "read_events (a # as) = read_events as"

text \<open>No \<^verbatim>\<open>append\<close> is directly followed by a readiness wait.\<close>

fun reads_follow_appends :: "action list \<Rightarrow> bool" where
  "reads_follow_appends [] = True"
| "reads_follow_appends (Append c # Poll_pipe p # as) = False"
| "reads_follow_appends (a # as) = reads_follow_appends as"

section \<open>The diagnostic taxonomy (error.h)\<close>

subsection \<open>The table \<^verbatim>\<open>QLJS_X_ERROR_TYPES\<close>\<close>

text \<open>
  Each \<^verbatim>\<open>QLJS_ERROR_TYPE(name, code, struct_body, format_call)\<close> entry gives the name of
  the structure, its code, the fields of the structure (type and name, in order) and the
  chain of calls that describes its messages: one of \<^verbatim>\<open>.error\<close>, \<^verbatim>\<open>.warning\<close>, \<^verbatim>\<open>.note\<close>,
  each with a translatable message and its arguments. The arguments in the table are a
  field, \<^verbatim>\<open>source_code_span(f.begin(), g.end())\<close> for fields \<open>f\<close> and \<open>g\<close>, or
  \<^verbatim>\<open>string8_view(&f, 1)\<close> for a field \<open>f\<close>.
\<close>

datatype field_type =
  identifier_t | source_code_span_t | char8_t | statement_kind_t | variable_kind_t

datatype format_arg = Arg_field string | Arg_span_begin_end string string | Arg_string8_view_1 string

datatype format_call =
    fmt_error string "format_arg list"
  | fmt_warning string "format_arg list"
  | fmt_note string "format_arg list"

datatype error_type =
  QLJS_ERROR_TYPE (name: string) (code: string)
    (struct_body: "(field_type \<times> string) list") (format_calls: "format_call list")

text \<open>
  The messages are written with \<open>CHR 0x27\<close> for an apostrophe, \<open>CHR 0x22\<close> for a double
  quote and \<open>CHR 0x5C\<close> for a backslash.
\<close>

definition QLJS_X_ERROR_TYPES :: "error_type list" where
  "QLJS_X_ERROR_TYPES = [
  QLJS_ERROR_TYPE ''error_assignment_before_variable_declaration'' ''E001''
      [(identifier_t, ''assignment''), (identifier_t, ''declaration'')]
      [fmt_error ''variable assigned before its declaration'' [Arg_field ''assignment''],
       fmt_note ''variable declared here'' [Arg_field ''declaration'']],
  QLJS_ERROR_TYPE ''error_assignment_to_const_global_variable'' ''E002''
      [(identifier_t, ''assignment'')]
      [fmt_error ''assignment to const global variable'' [Arg_field ''assignment'']],
  QLJS_ERROR_TYPE ''error_assignment_to_const_variable'' ''E003''
      [(identifier_t, ''declaration''), (identifier_t, ''assignment''), (variable_kind_t, ''var_kind'')]
      [fmt_error ''assignment to const variable'' [Arg_field ''assignment''],
       fmt_note ''const variable declared here'' [Arg_field ''declaration'']],
  QLJS_ERROR_TYPE ''error_assignment_to_const_variable_before_its_declaration'' ''E004''
      [(identifier_t, ''declaration''), (identifier_t, ''assignment''), (variable_kind_t, ''var_kind'')]
      [fmt_error ''assignment to const variable before its declaration'' [Arg_field ''assignment''],
       fmt_note ''const variable declared here'' [Arg_field ''declaration'']],
  QLJS_ERROR_TYPE ''error_assignment_to_undeclared_variable'' ''E059''
      [(identifier_t, ''assignment'')]
      [fmt_warning ''assignment to undeclared variable'' [Arg_field ''assignment'']],
  QLJS_ERROR_TYPE ''error_await_operator_outside_async'' ''E162''
      [(source_code_span_t, ''await_operator'')]
      [fmt_error ([CHR 0x27] @ ''await'' @ [CHR 0x27] @ '' is only allowed in async functions'') [Arg_field ''await_operator'']],
  QLJS_ERROR_TYPE ''error_big_int_literal_contains_decimal_point'' ''E005''
      [(source_code_span_t, ''where'')]
      [fmt_error ''BigInt literal contains decimal point'' [Arg_field ''where'']],
  QLJS_ERROR_TYPE ''error_big_int_literal_contains_exponent'' ''E006''
      [(source_code_span_t, ''where'')]
      [fmt_error ''BigInt literal contains exponent'' [Arg_field ''where'']],
  QLJS_ERROR_TYPE ''error_c_style_for_loop_is_missing_third_component'' ''E093''
      [(source_code_span_t, ''expected_last_component''), (source_code_span_t, ''existing_semicolon'')]
      [fmt_error ''C-style for loop is missing its third component'' [Arg_field ''expected_last_component'']],
  QLJS_ERROR_TYPE ''error_cannot_assign_to_variable_named_async_in_for_of_loop'' ''E082''
      [(identifier_t, ''async_identifier'')]
      [fmt_error (''assigning to '' @ [CHR 0x27] @ ''async'' @ [CHR 0x27] @ '' in a for-of loop requires parentheses'') [Arg_field ''async_identifier'']],
  QLJS_ERROR_TYPE ''error_cannot_declare_await_in_async_function'' ''E069''
      [(identifier_t, ''name'')]
      [fmt_error (''cannot declare '' @ [CHR 0x27] @ ''await'' @ [CHR 0x27] @ '' inside async function'') [Arg_field ''name'']],
  QLJS_ERROR_TYPE ''error_cannot_declare_class_named_let'' ''E007''
      [(source_code_span_t, ''name'')]
      [fmt_error (''classes cannot be named '' @ [CHR 0x27] @ ''let'' @ [CHR 0x27]) [Arg_field ''name'']],
  QLJS_ERROR_TYPE ''error_cannot_declare_variable_named_let_with_let'' ''E008''
      [(source_code_span_t, ''name'')]
      [fmt_error (''let statement cannot declare variables named '' @ [CHR 0x27] @ ''let'' @ [CHR 0x27]) [Arg_field ''name'']],
  QLJS_ERROR_TYPE ''error_cannot_declare_variable_with_keyword_name'' ''E124''
      [(source_code_span_t, ''keyword'')]
      [fmt_error (''cannot declare variable named keyword '' @ [CHR 0x27] @ ''{0}'' @ [CHR 0x27]) [Arg_field ''keyword'']],
  QLJS_ERROR_TYPE ''error_cannot_declare_yield_in_generator_function'' ''E071''
      [(identifier_t, ''name'')]
      [fmt_error (''cannot declare '' @ [CHR 0x27] @ ''yield'' @ [CHR 0x27] @ '' inside generator function'') [Arg_field ''name'']],
  QLJS_ERROR_TYPE ''error_cannot_export_default_variable'' ''E076''
      [(source_code_span_t, ''declaring_token'')]
      [fmt_error (''cannot declare and export variable with '' @ [CHR 0x27] @ ''export default'' @ [CHR 0x27]) [Arg_field ''declaring_token'']],
  QLJS_ERROR_TYPE ''error_cannot_export_let'' ''E009''
      [(source_code_span_t, ''export_name'')]
      [fmt_error (''cannot export variable named '' @ [CHR 0x27] @ ''let'' @ [CHR 0x27]) [Arg_field ''export_name'']],
  QLJS_ERROR_TYPE ''error_cannot_export_variable_named_keyword'' ''E144''
      [(identifier_t, ''export_name'')]
      [fmt_error (''cannot export variable named keyword '' @ [CHR 0x27] @ ''{0}'' @ [CHR 0x27]) [Arg_field ''export_name'']],
  QLJS_ERROR_TYPE ''error_cannot_import_let'' ''E010''
      [(source_code_span_t, ''import_name'')]
      [fmt_error (''cannot import '' @ [CHR 0x27] @ ''let'' @ [CHR 0x27]) [Arg_field ''import_name'']],
  QLJS_ERROR_TYPE ''error_cannot_import_variable_named_keyword'' ''E145''
      [(identifier_t, ''import_name'')]
      [fmt_error (''cannot import variable named keyword '' @ [CHR 0x27] @ ''{0}'' @ [CHR 0x27]) [Arg_field ''import_name'']],
  QLJS_ERROR_TYPE ''error_cannot_refer_to_private_variable_without_object'' ''E155''
      [(identifier_t, ''private_identifier'')]
      [fmt_error (''cannot reference private variables without object; use '' @ [CHR 0x27] @ ''this.'' @ [CHR 0x27]) [Arg_field ''private_identifier'']],
  QLJS_ERROR_TYPE ''error_cannot_update_variable_during_declaration'' ''E136''
      [(source_code_span_t, ''declaring_token''), (source_code_span_t, ''updating_operator'')]
      [fmt_error (''cannot update variable with '' @ [CHR 0x27] @ ''{0}'' @ [CHR 0x27] @ '' while declaring it'') [Arg_field ''updating_operator''],
       fmt_note (''remove '' @ [CHR 0x27] @ ''{0}'' @ [CHR 0x27] @ '' to update an existing variable'') [Arg_field ''declaring_token'']],
  QLJS_ERROR_TYPE ''error_catch_without_try'' ''E117''
      [(source_code_span_t, ''catch_token'')]
      [fmt_error (''unexpected '' @ [CHR 0x27] @ ''catch'' @ [CHR 0x27] @ '' without '' @ [CHR 0x27] @ ''try'' @ [CHR 0x27]) [Arg_field ''catch_token'']],
  QLJS_ERROR_TYPE ''error_class_statement_not_allowed_in_body'' ''E149''
      [(statement_kind_t, ''kind_of_statement''), (source_code_span_t, ''expected_body''), (source_code_span_t, ''class_keyword'')]
      [fmt_error ''missing body for {1:headlinese}'' [Arg_field ''expected_body'', Arg_field ''kind_of_statement''],
       fmt_note ''a class statement is not allowed as the body of {1:singular}'' [Arg_field ''class_keyword'', Arg_field ''kind_of_statement'']],
  QLJS_ERROR_TYPE ''error_character_disallowed_in_identifiers'' ''E011''
      [(source_code_span_t, ''character'')]
      [fmt_error ''character is not allowed in identifiers'' [Arg_field ''character'']],
  QLJS_ERROR_TYPE ''error_comma_not_allowed_after_spread_parameter'' ''E070''
      [(source_code_span_t, ''comma''), (source_code_span_t, ''spread'')]
      [fmt_error ''commas are not allowed after spread parameter'' [Arg_field ''comma'']],
  QLJS_ERROR_TYPE ''error_else_has_no_if'' ''E065''
      [(source_code_span_t, ''else_token'')]
      [fmt_error ([CHR 0x27] @ ''else'' @ [CHR 0x27] @ '' has no corresponding '' @ [CHR 0x27] @ ''if'' @ [CHR 0x27]) [Arg_field ''else_token'']],
  QLJS_ERROR_TYPE ''error_escaped_character_disallowed_in_identifiers'' ''E012''
      [(source_code_span_t, ''escape_sequence'')]
      [fmt_error ''escaped character is not allowed in identifiers'' [Arg_field ''escape_sequence'']],
  QLJS_ERROR_TYPE ''error_escaped_code_point_in_identifier_out_of_range'' ''E013''
      [(source_code_span_t, ''escape_sequence'')]
      [fmt_error ''code point out of range'' [Arg_field ''escape_sequence'']],
  QLJS_ERROR_TYPE ''error_extra_comma_not_allowed_between_arguments'' ''E068''
      [(source_code_span_t, ''comma'')]
      [fmt_error (''extra '' @ [CHR 0x27] @ '','' @ [CHR 0x27] @ '' is not allowed between function call arguments'') [Arg_field ''comma'']],
  QLJS_ERROR_TYPE ''error_expected_as_before_imported_namespace_alias'' ''E126''
      [(source_code_span_t, ''alias''), (source_code_span_t, ''star_token'')]
      [fmt_error (''expected '' @ [CHR 0x27] @ ''as'' @ [CHR 0x27] @ '' between '' @ [CHR 0x27] @ ''{1}'' @ [CHR 0x27] @ '' and '' @ [CHR 0x27] @ ''{2}'' @ [CHR 0x27]) [Arg_span_begin_end ''star_token'' ''alias'', Arg_field ''star_token'', Arg_field ''alias'']],
  QLJS_ERROR_TYPE ''error_expected_comma_to_separate_object_literal_entries'' ''E131''
      [(source_code_span_t, ''unexpected_token'')]
      [fmt_error (''expected '' @ [CHR 0x27] @ '','' @ [CHR 0x27] @ '' between object literal entries'') [Arg_field ''unexpected_token'']],
  QLJS_ERROR_TYPE ''error_expected_expression_before_newline'' ''E014''
      [(source_code_span_t, ''where'')]
      [fmt_error ''expected expression before newline'' [Arg_field ''where'']],
  QLJS_ERROR_TYPE ''error_expected_expression_for_switch_case'' ''E140''
      [(source_code_span_t, ''case_token'')]
      [fmt_error (''expected expression after '' @ [CHR 0x27] @ ''case'' @ [CHR 0x27]) [Arg_field ''case_token'']],
  QLJS_ERROR_TYPE ''error_expected_expression_before_semicolon'' ''E015''
      [(source_code_span_t, ''where'')]
      [fmt_error ''expected expression before semicolon'' [Arg_field ''where'']],
  QLJS_ERROR_TYPE ''error_expected_from_and_module_specifier'' ''E129''
      [(source_code_span_t, ''where'')]
      [fmt_error (''expected '' @ [CHR 0x27] @ ''from '' @ [CHR 0x22] @ ''name_of_module.mjs'' @ [CHR 0x22, CHR 0x27]) [Arg_field ''where'']],
  QLJS_ERROR_TYPE ''error_expected_from_before_module_specifier'' ''E128''
      [(source_code_span_t, ''module_specifier'')]
      [fmt_error (''expected '' @ [CHR 0x27] @ ''from'' @ [CHR 0x27] @ '' before module specifier'') [Arg_field ''module_specifier'']],
  QLJS_ERROR_TYPE ''error_expected_hex_digits_in_unicode_escape'' ''E016''
      [(source_code_span_t, ''escape_sequence'')]
      [fmt_error ''expected hexadecimal digits in Unicode escape sequence'' [Arg_field ''escape_sequence'']],
  QLJS_ERROR_TYPE ''error_expected_left_curly'' ''E107''
      [(source_code_span_t, ''expected_left_curly'')]
      [fmt_error (''expected '' @ [CHR 0x27] @ ''{{'' @ [CHR 0x27]) [Arg_field ''expected_left_curly'']],
  QLJS_ERROR_TYPE ''error_expected_right_paren_for_function_call'' ''E141''
      [(source_code_span_t, ''expected_right_paren''), (source_code_span_t, ''left_paren'')]
      [fmt_error (''expected '' @ [CHR 0x27] @ '')'' @ [CHR 0x27] @ '' to close function call'') [Arg_field ''expected_right_paren''],
       fmt_note ''function call started here'' [Arg_field ''left_paren'']],
  QLJS_ERROR_TYPE ''error_expected_parentheses_around_do_while_condition'' ''E084''
      [(source_code_span_t, ''condition'')]
      [fmt_error ''do-while loop needs parentheses around condition'' [Arg_field ''condition'']],
  QLJS_ERROR_TYPE ''error_expected_parenthesis_around_do_while_condition'' ''E085''
      [(source_code_span_t, ''where''), (char8_t, ''token'')]
      [fmt_error (''do-while loop is missing '' @ [CHR 0x27] @ ''{1}'' @ [CHR 0x27] @ '' around condition'') [Arg_field ''where'', Arg_string8_view_1 ''token'']],
  QLJS_ERROR_TYPE ''error_expected_parentheses_around_if_condition'' ''E017''
      [(source_code_span_t, ''condition'')]
      [fmt_error ''if statement needs parentheses around condition'' [Arg_field ''condition'']],
  QLJS_ERROR_TYPE ''error_expected_parenthesis_around_if_condition'' ''E018''
      [(source_code_span_t, ''where''), (char8_t, ''token'')]
      [fmt_error (''if statement is missing '' @ [CHR 0x27] @ ''{1}'' @ [CHR 0x27] @ '' around condition'') [Arg_field ''where'', Arg_string8_view_1 ''token'']],
  QLJS_ERROR_TYPE ''error_expected_parentheses_around_switch_condition'' ''E091''
      [(source_code_span_t, ''condition'')]
      [fmt_error ''switch statement needs parentheses around condition'' [Arg_field ''condition'']],
  QLJS_ERROR_TYPE ''error_expected_parenthesis_around_switch_condition'' ''E092''
      [(source_code_span_t, ''where''), (char8_t, ''token'')]
      [fmt_error (''switch statement is missing '' @ [CHR 0x27] @ ''{1}'' @ [CHR 0x27] @ '' around condition'') [Arg_field ''where'', Arg_string8_view_1 ''token'']],
  QLJS_ERROR_TYPE ''error_expected_parentheses_around_while_condition'' ''E087''
      [(source_code_span_t, ''condition'')]
      [fmt_error ''while loop needs parentheses around condition'' [Arg_field ''condition'']],
  QLJS_ERROR_TYPE ''error_expected_parenthesis_around_while_condition'' ''E088''
      [(source_code_span_t, ''where''), (char8_t, ''token'')]
      [fmt_error (''while loop is missing '' @ [CHR 0x27] @ ''{1}'' @ [CHR 0x27] @ '' around condition'') [Arg_field ''where'', Arg_string8_view_1 ''token'']],
  QLJS_ERROR_TYPE ''error_expected_parentheses_around_with_expression'' ''E089''
      [(source_code_span_t, ''expression'')]
      [fmt_error ''with statement needs parentheses around expression'' [Arg_field ''expression'']],
  QLJS_ERROR_TYPE ''error_expected_parenthesis_around_with_expression'' ''E090''
      [(source_code_span_t, ''where''), (char8_t, ''token'')]
      [fmt_error (''with statement is missing '' @ [CHR 0x27] @ ''{1}'' @ [CHR 0x27] @ '' around expression'') [Arg_field ''where'', Arg_string8_view_1 ''token'']],
  QLJS_ERROR_TYPE ''error_expected_variable_name_for_catch'' ''E135''
      [(source_code_span_t, ''unexpected_token'')]
      [fmt_error (''expected variable name for '' @ [CHR 0x27] @ ''catch'' @ [CHR 0x27]) [Arg_field ''unexpected_token'']],
  QLJS_ERROR_TYPE ''error_exporting_requires_default'' ''E067''
      [(source_code_span_t, ''expression'')]
      [fmt_error (''exporting requires '' @ [CHR 0x27] @ ''default'' @ [CHR 0x27]) [Arg_field ''expression'']],
  QLJS_ERROR_TYPE ''error_exporting_requires_curlies'' ''E066''
      [(source_code_span_t, ''names'')]
      [fmt_error (''exporting requires '' @ [CHR 0x27] @ ''{{'' @ [CHR 0x27] @ '' and '' @ [CHR 0x27] @ ''}'' @ [CHR 0x27]) [Arg_field ''names'']],
  QLJS_ERROR_TYPE ''error_exporting_string_name_only_allowed_for_export_from'' ''E153''
      [(source_code_span_t, ''export_name'')]
      [fmt_error ''forwarding exports are only allowed in export-from'' [Arg_field ''export_name'']],
  QLJS_ERROR_TYPE ''error_finally_without_try'' ''E118''
      [(source_code_span_t, ''finally_token'')]
      [fmt_error (''unexpected '' @ [CHR 0x27] @ ''finally'' @ [CHR 0x27] @ '' without '' @ [CHR 0x27] @ ''try'' @ [CHR 0x27]) [Arg_field ''finally_token'']],
  QLJS_ERROR_TYPE ''error_function_statement_not_allowed_in_body'' ''E148''
      [(statement_kind_t, ''kind_of_statement''), (source_code_span_t, ''expected_body''), (source_code_span_t, ''function_keywords'')]
      [fmt_error ''missing body for {1:headlinese}'' [Arg_field ''expected_body'', Arg_field ''kind_of_statement''],
       fmt_note ''a function statement is not allowed as the body of {1:singular}'' [Arg_field ''function_keywords'', Arg_field ''kind_of_statement'']],
  QLJS_ERROR_TYPE ''error_generator_function_star_belongs_before_name'' ''E133''
      [(source_code_span_t, ''function_name''), (source_code_span_t, ''star'')]
      [fmt_error (''generator function '' @ [CHR 0x27] @ ''*'' @ [CHR 0x27] @ '' belongs before function name'') [Arg_field ''star'']],
  QLJS_ERROR_TYPE ''error_in_disallowed_in_c_style_for_loop'' ''E108''
      [(source_code_span_t, ''in_token'')]
      [fmt_error ([CHR 0x27] @ ''in'' @ [CHR 0x27] @ '' disallowed in C-style for loop initializer'') [Arg_field ''in_token'']],
  QLJS_ERROR_TYPE ''error_indexing_requires_expression'' ''E075''
      [(source_code_span_t, ''squares'')]
      [fmt_error ''indexing requires an expression'' [Arg_field ''squares'']],
  QLJS_ERROR_TYPE ''error_invalid_binding_in_let_statement'' ''E019''
      [(source_code_span_t, ''where'')]
      [fmt_error ''invalid binding in let statement'' [Arg_field ''where'']],
  QLJS_ERROR_TYPE ''error_invalid_expression_left_of_assignment'' ''E020''
      [(source_code_span_t, ''where'')]
      [fmt_error ''invalid expression left of assignment'' [Arg_field ''where'']],
  QLJS_ERROR_TYPE ''error_invalid_hex_escape_sequence'' ''E060''
      [(source_code_span_t, ''escape_sequence'')]
      [fmt_error ''invalid hex escape sequence: {0}'' [Arg_field ''escape_sequence'']],
  QLJS_ERROR_TYPE ''error_invalid_lone_literal_in_object_literal'' ''E021''
      [(source_code_span_t, ''where'')]
      [fmt_error ''invalid lone literal in object literal'' [Arg_field ''where'']],
  QLJS_ERROR_TYPE ''error_invalid_rhs_for_dot_operator'' ''E074''
      [(source_code_span_t, ''dot'')]
      [fmt_error ([CHR 0x27] @ ''.'' @ [CHR 0x27] @ '' operator needs a key name; use + to concatenate strings; use [] to access with a dynamic key'') [Arg_field ''dot'']],
  QLJS_ERROR_TYPE ''error_invalid_utf_8_sequence'' ''E022''
      [(source_code_span_t, ''sequence'')]
      [fmt_error ''invalid UTF-8 sequence'' [Arg_field ''sequence'']],
  QLJS_ERROR_TYPE ''error_keywords_cannot_contain_escape_sequences'' ''E023''
      [(source_code_span_t, ''escape_sequence'')]
      [fmt_error ''keywords cannot contain escape sequences'' [Arg_field ''escape_sequence'']],
  QLJS_ERROR_TYPE ''error_legacy_octal_literal_may_not_be_big_int'' ''E032''
      [(source_code_span_t, ''characters'')]
      [fmt_error ''legacy octal literal may not be BigInt'' [Arg_field ''characters'']],
  QLJS_ERROR_TYPE ''error_legacy_octal_literal_may_not_contain_underscores'' ''E152''
      [(source_code_span_t, ''underscores'')]
      [fmt_error ''legacy octal literals may not contain underscores'' [Arg_field ''underscores'']],
  QLJS_ERROR_TYPE ''error_let_with_no_bindings'' ''E024''
      [(source_code_span_t, ''where'')]
      [fmt_error ''let with no bindings'' [Arg_field ''where'']],
  QLJS_ERROR_TYPE ''error_lexical_declaration_not_allowed_in_body'' ''E150''
      [(statement_kind_t, ''kind_of_statement''), (source_code_span_t, ''expected_body''), (source_code_span_t, ''declaring_keyword'')]
      [fmt_error ''missing body for {1:headlinese}'' [Arg_field ''expected_body'', Arg_field ''kind_of_statement''],
       fmt_note ''a lexical declaration is not allowed as the body of {1:singular}'' [Arg_field ''declaring_keyword'', Arg_field ''kind_of_statement'']],
  QLJS_ERROR_TYPE ''error_methods_should_not_use_function_keyword'' ''E072''
      [(source_code_span_t, ''function_token'')]
      [fmt_error (''methods should not use the '' @ [CHR 0x27] @ ''function'' @ [CHR 0x27] @ '' keyword'') [Arg_field ''function_token'']],
  QLJS_ERROR_TYPE ''error_missing_array_close'' ''E157''
      [(source_code_span_t, ''left_square''), (source_code_span_t, ''expected_right_square'')]
      [fmt_error (''missing end of array; expected '' @ [CHR 0x27] @ '']'' @ [CHR 0x27]) [Arg_field ''expected_right_square''],
       fmt_note ''array started here'' [Arg_field ''left_square'']],
  QLJS_ERROR_TYPE ''error_missing_arrow_function_parameter_list'' ''E105''
      [(source_code_span_t, ''arrow'')]
      [fmt_error ''missing parameters for arrow function'' [Arg_field ''arrow'']],
  QLJS_ERROR_TYPE ''error_missing_body_for_catch_clause'' ''E119''
      [(source_code_span_t, ''catch_token'')]
      [fmt_error ''missing body for catch clause'' [Arg_field ''catch_token'']],
  QLJS_ERROR_TYPE ''error_missing_body_for_class'' ''E111''
      [(source_code_span_t, ''class_keyword_and_name_and_heritage'')]
      [fmt_error ''missing body for class'' [Arg_field ''class_keyword_and_name_and_heritage'']],
  QLJS_ERROR_TYPE ''error_missing_body_for_do_while_statement'' ''E101''
      [(source_code_span_t, ''do_token'')]
      [fmt_error ''missing body for do-while loop'' [Arg_field ''do_token'']],
  QLJS_ERROR_TYPE ''error_missing_body_for_finally_clause'' ''E121''
      [(source_code_span_t, ''finally_token'')]
      [fmt_error ''missing body for finally clause'' [Arg_field ''finally_token'']],
  QLJS_ERROR_TYPE ''error_missing_body_for_for_statement'' ''E094''
      [(source_code_span_t, ''for_and_header'')]
      [fmt_error (''missing body for '' @ [CHR 0x27] @ ''for'' @ [CHR 0x27] @ '' loop'') [Arg_field ''for_and_header'']],
  QLJS_ERROR_TYPE ''error_missing_body_for_if_statement'' ''E064''
      [(source_code_span_t, ''if_and_condition'')]
      [fmt_error (''missing body for '' @ [CHR 0x27] @ ''if'' @ [CHR 0x27] @ '' statement'') [Arg_field ''if_and_condition'']],
  QLJS_ERROR_TYPE ''error_missing_body_for_switch_statement'' ''E106''
      [(source_code_span_t, ''switch_and_condition'')]
      [fmt_error (''missing body for '' @ [CHR 0x27] @ ''switch'' @ [CHR 0x27] @ '' statement'') [Arg_field ''switch_and_condition'']],
  QLJS_ERROR_TYPE ''error_missing_body_for_try_statement'' ''E120''
      [(source_code_span_t, ''try_token'')]
      [fmt_error ''missing body for try statement'' [Arg_field ''try_token'']],
  QLJS_ERROR_TYPE ''error_missing_body_for_while_statement'' ''E104''
      [(source_code_span_t, ''while_and_condition'')]
      [fmt_error ''missing body for while loop'' [Arg_field ''while_and_condition'']],
  QLJS_ERROR_TYPE ''error_missing_catch_or_finally_for_try_statement'' ''E122''
      [(source_code_span_t, ''expected_catch_or_finally''), (source_code_span_t, ''try_token'')]
      [fmt_error ''missing catch or finally clause for try statement'' [Arg_field ''expected_catch_or_finally''],
       fmt_note ''try statement starts here'' [Arg_field ''try_token'']],
  QLJS_ERROR_TYPE ''error_missing_catch_variable_between_parentheses'' ''E130''
      [(source_code_span_t, ''left_paren''), (source_code_span_t, ''right_paren'')]
      [fmt_error ''missing catch variable name between parentheses'' [Arg_span_begin_end ''left_paren'' ''right_paren'']],
  QLJS_ERROR_TYPE ''error_missing_comma_between_object_literal_entries'' ''E025''
      [(source_code_span_t, ''where'')]
      [fmt_error ''missing comma between object literal entries'' [Arg_field ''where'']],
  QLJS_ERROR_TYPE ''error_missing_comma_between_variable_declarations'' ''E132''
      [(source_code_span_t, ''expected_comma'')]
      [fmt_error (''missing '' @ [CHR 0x27] @ '','' @ [CHR 0x27] @ '' between variable declarations'') [Arg_field ''expected_comma'']],
  QLJS_ERROR_TYPE ''error_missing_colon_in_conditional_expression'' ''E146''
      [(source_code_span_t, ''expected_colon''), (source_code_span_t, ''question'')]
      [fmt_error (''missing '' @ [CHR 0x27] @ '':'' @ [CHR 0x27] @ '' in conditional expression'') [Arg_field ''expected_colon''],
       fmt_note ([CHR 0x27] @ ''?'' @ [CHR 0x27] @ '' creates a conditional expression'') [Arg_field ''question'']],
  QLJS_ERROR_TYPE ''error_missing_condition_for_if_statement'' ''E138''
      [(source_code_span_t, ''if_keyword'')]
      [fmt_error ''missing condition for if statement'' [Arg_field ''if_keyword'']],
  QLJS_ERROR_TYPE ''error_missing_condition_for_while_statement'' ''E139''
      [(source_code_span_t, ''while_keyword'')]
      [fmt_error ''missing condition for while statement'' [Arg_field ''while_keyword'']],
  QLJS_ERROR_TYPE ''error_missing_condition_for_switch_statement'' ''E137''
      [(source_code_span_t, ''switch_keyword'')]
      [fmt_error ''missing condition for switch statement'' [Arg_field ''switch_keyword'']],
  QLJS_ERROR_TYPE ''error_missing_expression_between_parentheses'' ''E078''
      [(source_code_span_t, ''left_paren''), (source_code_span_t, ''right_paren'')]
      [fmt_error ''missing expression between parentheses'' [Arg_span_begin_end ''left_paren'' ''right_paren'']],
  QLJS_ERROR_TYPE ''error_missing_for_loop_header'' ''E125''
      [(source_code_span_t, ''for_token'')]
      [fmt_error (''missing header and body for '' @ [CHR 0x27] @ ''for'' @ [CHR 0x27] @ '' loop'') [Arg_field ''for_token'']],
  QLJS_ERROR_TYPE ''error_missing_for_loop_rhs_or_components_after_expression'' ''E097''
      [(source_code_span_t, ''header''), (source_code_span_t, ''for_token'')]
      [fmt_error ''for loop needs an iterable, or condition and update clauses'' [Arg_field ''header''],
       fmt_note (''use '' @ [CHR 0x27] @ ''while'' @ [CHR 0x27] @ '' instead to loop until a condition is false'') [Arg_field ''for_token'']],
  QLJS_ERROR_TYPE ''error_missing_for_loop_rhs_or_components_after_declaration'' ''E098''
      [(source_code_span_t, ''header''), (source_code_span_t, ''for_token'')]
      [fmt_error ''for loop needs an iterable, or condition and update clauses'' [Arg_field ''header'']],
  QLJS_ERROR_TYPE ''error_missing_function_parameter_list'' ''E073''
      [(source_code_span_t, ''function_name'')]
      [fmt_error ''missing function parameter list'' [Arg_field ''function_name'']],
  QLJS_ERROR_TYPE ''error_missing_header_of_for_loop'' ''E096''
      [(source_code_span_t, ''where'')]
      [fmt_error ''missing for loop header'' [Arg_field ''where'']],
  QLJS_ERROR_TYPE ''error_missing_key_for_object_entry'' ''E154''
      [(source_code_span_t, ''expression'')]
      [fmt_error ''unexpected expression; missing key for object entry'' [Arg_field ''expression'']],
  QLJS_ERROR_TYPE ''error_missing_name_in_function_statement'' ''E061''
      [(source_code_span_t, ''where'')]
      [fmt_error ''missing name in function statement'' [Arg_field ''where'']],
  QLJS_ERROR_TYPE ''error_missing_name_in_class_statement'' ''E080''
      [(source_code_span_t, ''class_keyword'')]
      [fmt_error ''missing name of class'' [Arg_field ''class_keyword'']],
  QLJS_ERROR_TYPE ''error_missing_name_of_exported_class'' ''E081''
      [(source_code_span_t, ''class_keyword'')]
      [fmt_error ''missing name of exported class'' [Arg_field ''class_keyword'']],
  QLJS_ERROR_TYPE ''error_missing_name_of_exported_function'' ''E079''
      [(source_code_span_t, ''function_keyword'')]
      [fmt_error ''missing name of exported function'' [Arg_field ''function_keyword'']],
  QLJS_ERROR_TYPE ''error_missing_name_or_parentheses_for_function'' ''E062''
      [(source_code_span_t, ''where''), (source_code_span_t, ''function'')]
      [fmt_error ''missing name or parentheses for function'' [Arg_field ''where'']],
  QLJS_ERROR_TYPE ''error_missing_operand_for_operator'' ''E026''
      [(source_code_span_t, ''where'')]
      [fmt_error ''missing operand for operator'' [Arg_field ''where'']],
  QLJS_ERROR_TYPE ''error_missing_operator_between_expression_and_arrow_function'' ''E063''
      [(source_code_span_t, ''where'')]
      [fmt_error ''missing operator between expression and arrow function'' [Arg_field ''where'']],
  QLJS_ERROR_TYPE ''error_missing_property_name_for_dot_operator'' ''E142''
      [(source_code_span_t, ''dot'')]
      [fmt_error (''missing property name after '' @ [CHR 0x27] @ ''.'' @ [CHR 0x27] @ '' operator'') [Arg_field ''dot'']],
  QLJS_ERROR_TYPE ''error_missing_semicolon_after_statement'' ''E027''
      [(source_code_span_t, ''where'')]
      [fmt_error ''missing semicolon after statement'' [Arg_field ''where'']],
  QLJS_ERROR_TYPE ''error_missing_semicolon_between_for_loop_condition_and_update'' ''E100''
      [(source_code_span_t, ''expected_semicolon'')]
      [fmt_error ''missing semicolon between condition and update parts of for loop'' [Arg_field ''expected_semicolon'']],
  QLJS_ERROR_TYPE ''error_missing_semicolon_between_for_loop_init_and_condition'' ''E099''
      [(source_code_span_t, ''expected_semicolon'')]
      [fmt_error ''missing semicolon between init and condition parts of for loop'' [Arg_field ''expected_semicolon'']],
  QLJS_ERROR_TYPE ''error_missing_token_after_export'' ''E113''
      [(source_code_span_t, ''export_token'')]
      [fmt_error (''incomplete export; expected '' @ [CHR 0x27] @ ''export default ...'' @ [CHR 0x27] @ '' or '' @ [CHR 0x27] @ ''export {{name}'' @ [CHR 0x27] @ '' or '' @ [CHR 0x27] @ ''export * from ...'' @ [CHR 0x27] @ '' or '' @ [CHR 0x27] @ ''export class'' @ [CHR 0x27] @ '' or '' @ [CHR 0x27] @ ''export function'' @ [CHR 0x27] @ '' or '' @ [CHR 0x27] @ ''export let'' @ [CHR 0x27]) [Arg_field ''export_token'']],
  QLJS_ERROR_TYPE ''error_missing_value_for_object_literal_entry'' ''E083''
      [(source_code_span_t, ''key'')]
      [fmt_error ''missing value for object property'' [Arg_field ''key'']],
  QLJS_ERROR_TYPE ''error_missing_variable_name_in_declaration'' ''E123''
      [(source_code_span_t, ''equal_token'')]
      [fmt_error ''missing variable name'' [Arg_field ''equal_token'']],
  QLJS_ERROR_TYPE ''error_missing_while_and_condition_for_do_while_statement'' ''E103''
      [(source_code_span_t, ''do_token''), (source_code_span_t, ''expected_while'')]
      [fmt_error (''missing '' @ [CHR 0x27] @ ''while (condition)'' @ [CHR 0x27] @ '' for do-while statement'') [Arg_field ''expected_while''],
       fmt_note ''do-while statement starts here'' [Arg_field ''do_token'']],
  QLJS_ERROR_TYPE ''error_number_literal_contains_consecutive_underscores'' ''E028''
      [(source_code_span_t, ''underscores'')]
      [fmt_error ''number literal contains consecutive underscores'' [Arg_field ''underscores'']],
  QLJS_ERROR_TYPE ''error_number_literal_contains_trailing_underscores'' ''E029''
      [(source_code_span_t, ''underscores'')]
      [fmt_error ''number literal contains trailing underscore(s)'' [Arg_field ''underscores'']],
  QLJS_ERROR_TYPE ''error_octal_literal_may_not_have_exponent'' ''E030''
      [(source_code_span_t, ''characters'')]
      [fmt_error ''octal literal may not have exponent'' [Arg_field ''characters'']],
  QLJS_ERROR_TYPE ''error_octal_literal_may_not_have_decimal'' ''E031''
      [(source_code_span_t, ''characters'')]
      [fmt_error ''octal literal may not have decimal'' [Arg_field ''characters'']],
  QLJS_ERROR_TYPE ''error_private_properties_are_not_allowed_in_object_literals'' ''E156''
      [(identifier_t, ''private_identifier'')]
      [fmt_error ''private properties are not allowed in object literals'' [Arg_field ''private_identifier'']],
  QLJS_ERROR_TYPE ''error_redeclaration_of_global_variable'' ''E033''
      [(identifier_t, ''redeclaration'')]
      [fmt_error ''redeclaration of global variable'' [Arg_field ''redeclaration'']],
  QLJS_ERROR_TYPE ''error_redeclaration_of_variable'' ''E034''
      [(identifier_t, ''redeclaration''), (identifier_t, ''original_declaration'')]
      [fmt_error ''redeclaration of variable: {0}'' [Arg_field ''redeclaration''],
       fmt_note ''variable already declared here'' [Arg_field ''original_declaration'']],
  QLJS_ERROR_TYPE ''error_regexp_literal_flags_cannot_contain_unicode_escapes'' ''E035''
      [(source_code_span_t, ''escape_sequence'')]
      [fmt_error ''RegExp literal cannot contain Unicode escapes'' [Arg_field ''escape_sequence'']],
  QLJS_ERROR_TYPE ''error_stray_comma_in_let_statement'' ''E036''
      [(source_code_span_t, ''where'')]
      [fmt_error ''stray comma in let statement'' [Arg_field ''where'']],
  QLJS_ERROR_TYPE ''error_typescript_enum_not_implemented'' ''E127''
      [(source_code_span_t, ''enum_keyword'')]
      [fmt_error (''TypeScript'' @ [CHR 0x27] @ ''s '' @ [CHR 0x27] @ ''enum'' @ [CHR 0x27] @ '' feature is not yet implemented by quick-lint-js'') [Arg_field ''enum_keyword'']],
  QLJS_ERROR_TYPE ''error_unclosed_block_comment'' ''E037''
      [(source_code_span_t, ''comment_open'')]
      [fmt_error ''unclosed block comment'' [Arg_field ''comment_open'']],
  QLJS_ERROR_TYPE ''error_unclosed_code_block'' ''E134''
      [(source_code_span_t, ''block_open'')]
      [fmt_error (''unclosed code block; expected '' @ [CHR 0x27] @ ''}'' @ [CHR 0x27] @ '' by end of file'') [Arg_field ''block_open'']],
  QLJS_ERROR_TYPE ''error_unclosed_identifier_escape_sequence'' ''E038''
      [(source_code_span_t, ''escape_sequence'')]
      [fmt_error ''unclosed identifier escape sequence'' [Arg_field ''escape_sequence'']],
  QLJS_ERROR_TYPE ''error_unclosed_object_literal'' ''E161''
      [(source_code_span_t, ''object_open''), (source_code_span_t, ''expected_object_close'')]
      [fmt_error (''unclosed object literal; expected '' @ [CHR 0x27] @ ''}'' @ [CHR 0x27]) [Arg_field ''expected_object_close''],
       fmt_note ''object literal started here'' [Arg_field ''object_open'']],
  QLJS_ERROR_TYPE ''error_unclosed_regexp_literal'' ''E039''
      [(source_code_span_t, ''regexp_literal'')]
      [fmt_error ''unclosed regexp literal'' [Arg_field ''regexp_literal'']],
  QLJS_ERROR_TYPE ''error_unclosed_string_literal'' ''E040''
      [(source_code_span_t, ''string_literal'')]
      [fmt_error ''unclosed string literal'' [Arg_field ''string_literal'']],
  QLJS_ERROR_TYPE ''error_unclosed_template'' ''E041''
      [(source_code_span_t, ''incomplete_template'')]
      [fmt_error ''unclosed template'' [Arg_field ''incomplete_template'']],
  QLJS_ERROR_TYPE ''error_unexpected_at_character'' ''E042''
      [(source_code_span_t, ''character'')]
      [fmt_error (''unexpected '' @ [CHR 0x27] @ ''@'' @ [CHR 0x27]) [Arg_field ''character'']],
  QLJS_ERROR_TYPE ''error_unexpected_arrow_after_expression'' ''E160''
      [(source_code_span_t, ''arrow''), (source_code_span_t, ''expression'')]
      [fmt_error (''unexpected '' @ [CHR 0x27] @ ''{0}'' @ [CHR 0x27]) [Arg_field ''arrow''],
       fmt_note ''expected parameter for arrow function, but got an expression instead'' [Arg_field ''expression'']],
  QLJS_ERROR_TYPE ''error_unexpected_arrow_after_literal'' ''E158''
      [(source_code_span_t, ''arrow''), (source_code_span_t, ''literal_parameter'')]
      [fmt_error (''unexpected '' @ [CHR 0x27] @ ''{0}'' @ [CHR 0x27]) [Arg_field ''arrow''],
       fmt_note ''expected parameter for arrow function, but got a literal instead'' [Arg_field ''literal_parameter'']],
  QLJS_ERROR_TYPE ''error_unexpected_backslash_in_identifier'' ''E043''
      [(source_code_span_t, ''backslash'')]
      [fmt_error (''unexpected '' @ [CHR 0x27, CHR 0x5C, CHR 0x27] @ '' in identifier'') [Arg_field ''backslash'']],
  QLJS_ERROR_TYPE ''error_unexpected_case_outside_switch_statement'' ''E115''
      [(source_code_span_t, ''case_token'')]
      [fmt_error (''unexpected '' @ [CHR 0x27] @ ''case'' @ [CHR 0x27] @ '' outside switch statement'') [Arg_field ''case_token'']],
  QLJS_ERROR_TYPE ''error_unexpected_characters_in_number'' ''E044''
      [(source_code_span_t, ''characters'')]
      [fmt_error ''unexpected characters in number literal'' [Arg_field ''characters'']],
  QLJS_ERROR_TYPE ''error_unexpected_control_character'' ''E045''
      [(source_code_span_t, ''character'')]
      [fmt_error ''unexpected control character'' [Arg_field ''character'']],
  QLJS_ERROR_TYPE ''error_unexpected_characters_in_binary_number'' ''E046''
      [(source_code_span_t, ''characters'')]
      [fmt_error ''unexpected characters in binary literal'' [Arg_field ''characters'']],
  QLJS_ERROR_TYPE ''error_unexpected_characters_in_octal_number'' ''E047''
      [(source_code_span_t, ''characters'')]
      [fmt_error ''unexpected characters in octal literal'' [Arg_field ''characters'']],
  QLJS_ERROR_TYPE ''error_unexpected_characters_in_hex_number'' ''E048''
      [(source_code_span_t, ''characters'')]
      [fmt_error ''unexpected characters in hex literal'' [Arg_field ''characters'']],
  QLJS_ERROR_TYPE ''error_unexpected_default_outside_switch_statement'' ''E116''
      [(source_code_span_t, ''default_token'')]
      [fmt_error (''unexpected '' @ [CHR 0x27] @ ''default'' @ [CHR 0x27] @ '' outside switch statement'') [Arg_field ''default_token'']],
  QLJS_ERROR_TYPE ''error_unexpected_literal_in_parameter_list'' ''E159''
      [(source_code_span_t, ''literal'')]
      [fmt_error ''unexpected literal in parameter list; expected parameter name'' [Arg_field ''literal'']],
  QLJS_ERROR_TYPE ''error_unexpected_semicolon_in_c_style_for_loop'' ''E102''
      [(source_code_span_t, ''semicolon'')]
      [fmt_error ''C-style for loops have only three semicolon-separated components'' [Arg_field ''semicolon'']],
  QLJS_ERROR_TYPE ''error_unexpected_semicolon_in_for_in_loop'' ''E110''
      [(source_code_span_t, ''semicolon'')]
      [fmt_error ''for-in loop expression cannot have semicolons'' [Arg_field ''semicolon'']],
  QLJS_ERROR_TYPE ''error_unexpected_semicolon_in_for_of_loop'' ''E109''
      [(source_code_span_t, ''semicolon'')]
      [fmt_error ''for-of loop expression cannot have semicolons'' [Arg_field ''semicolon'']],
  QLJS_ERROR_TYPE ''error_no_digits_in_binary_number'' ''E049''
      [(source_code_span_t, ''characters'')]
      [fmt_error ''binary number literal has no digits'' [Arg_field ''characters'']],
  QLJS_ERROR_TYPE ''error_no_digits_in_hex_number'' ''E050''
      [(source_code_span_t, ''characters'')]
      [fmt_error ''hex number literal has no digits'' [Arg_field ''characters'']],
  QLJS_ERROR_TYPE ''error_no_digits_in_octal_number'' ''E051''
      [(source_code_span_t, ''characters'')]
      [fmt_error ''octal number literal has no digits'' [Arg_field ''characters'']],
  QLJS_ERROR_TYPE ''error_unexpected_hash_character'' ''E052''
      [(source_code_span_t, ''where'')]
      [fmt_error (''unexpected '' @ [CHR 0x27] @ ''#'' @ [CHR 0x27]) [Arg_field ''where'']],
  QLJS_ERROR_TYPE ''error_unexpected_identifier'' ''E053''
      [(source_code_span_t, ''where'')]
      [fmt_error ''unexpected identifier'' [Arg_field ''where'']],
  QLJS_ERROR_TYPE ''error_unexpected_identifier_in_expression'' ''E147''
      [(identifier_t, ''unexpected'')]
      [fmt_error ''unexpected identifier in expression; missing operator before'' [Arg_field ''unexpected'']],
  QLJS_ERROR_TYPE ''error_unexpected_token'' ''E054''
      [(source_code_span_t, ''token'')]
      [fmt_error ''unexpected token'' [Arg_field ''token'']],
  QLJS_ERROR_TYPE ''error_unexpected_token_after_export'' ''E112''
      [(source_code_span_t, ''unexpected_token'')]
      [fmt_error (''unexpected token in export; expected '' @ [CHR 0x27] @ ''export default ...'' @ [CHR 0x27] @ '' or '' @ [CHR 0x27] @ ''export {{name}'' @ [CHR 0x27] @ '' or '' @ [CHR 0x27] @ ''export * from ...'' @ [CHR 0x27] @ '' or '' @ [CHR 0x27] @ ''export class'' @ [CHR 0x27] @ '' or '' @ [CHR 0x27] @ ''export function'' @ [CHR 0x27] @ '' or '' @ [CHR 0x27] @ ''export let'' @ [CHR 0x27]) [Arg_field ''unexpected_token'']],
  QLJS_ERROR_TYPE ''error_unexpected_token_in_variable_declaration'' ''E114''
      [(source_code_span_t, ''unexpected_token'')]
      [fmt_error ''unexpected token in variable declaration; expected variable name'' [Arg_field ''unexpected_token'']],
  QLJS_ERROR_TYPE ''error_unmatched_indexing_bracket'' ''E055''
      [(source_code_span_t, ''left_square'')]
      [fmt_error ''unmatched indexing bracket'' [Arg_field ''left_square'']],
  QLJS_ERROR_TYPE ''error_unmatched_parenthesis'' ''E056''
      [(source_code_span_t, ''where'')]
      [fmt_error ''unmatched parenthesis'' [Arg_field ''where'']],
  QLJS_ERROR_TYPE ''error_unmatched_right_curly'' ''E143''
      [(source_code_span_t, ''right_curly'')]
      [fmt_error (''unmatched '' @ [CHR 0x27] @ ''}'' @ [CHR 0x27]) [Arg_field ''right_curly'']],
  QLJS_ERROR_TYPE ''error_use_of_undeclared_variable'' ''E057''
      [(identifier_t, ''name'')]
      [fmt_warning ''use of undeclared variable: {0}'' [Arg_field ''name'']],
  QLJS_ERROR_TYPE ''error_variable_used_before_declaration'' ''E058''
      [(identifier_t, ''use''), (identifier_t, ''declaration'')]
      [fmt_error ''variable used before declaration: {0}'' [Arg_field ''use''],
       fmt_note ''variable declared here'' [Arg_field ''declaration'']],
  QLJS_ERROR_TYPE ''error_invalid_break'' ''E200''
      [(source_code_span_t, ''break_statement'')]
      [fmt_error ''break can only be used inside of a loop or switch'' [Arg_field ''break_statement'']],
  QLJS_ERROR_TYPE ''error_invalid_continue'' ''E201''
      [(source_code_span_t, ''continue_statement'')]
      [fmt_error ''continue can only be used inside of a loop'' [Arg_field ''continue_statement'']]
  ]"

text \<open>The first two entries of the table, for reference.\<close>

definition error_assignment_to_const_global_variable :: error_type where
  "error_assignment_to_const_global_variable =
     QLJS_ERROR_TYPE ''error_assignment_to_const_global_variable'' ''E002''
       [(identifier_t, ''assignment'')]
       [fmt_error ''assignment to const global variable'' [Arg_field ''assignment'']]"

definition error_assignment_before_variable_declaration :: error_type where
  "error_assignment_before_variable_declaration =
     QLJS_ERROR_TYPE ''error_assignment_before_variable_declaration'' ''E001''
       [(identifier_t, ''assignment''), (identifier_t, ''declaration'')]
       [fmt_error ''variable assigned before its declaration'' [Arg_field ''assignment''],
        fmt_note ''variable declared here'' [Arg_field ''declaration'']]"

subsection \<open>Message templates\<close>

definition is_note :: "format_call \<Rightarrow> bool" where
  "is_note c = (case c of fmt_note m as \<Rightarrow> True | _ \<Rightarrow> False)"

definition is_primary :: "format_call \<Rightarrow> bool" where
  "is_primary c = (case c of fmt_note m as \<Rightarrow> False | _ \<Rightarrow> True)"

fun call_message :: "format_call \<Rightarrow> string" where
  "call_message (fmt_error m as) = m"
| "call_message (fmt_warning m as) = m"
| "call_message (fmt_note m as) = m"

fun call_args :: "format_call \<Rightarrow> format_arg list" where
  "call_args (fmt_error m as) = as"
| "call_args (fmt_warning m as) = as"
| "call_args (fmt_note m as) = as"

definition field_type_of :: "error_type \<Rightarrow> string \<Rightarrow> field_type option" where
  "field_type_of K f = map_of (map (\<lambda>(t, n). (n, t)) (struct_body K)) f"

text \<open>
  An argument refers to fields the structure declares; the two derived forms need the
  field types that \<^verbatim>\<open>.begin()\<close>, \<^verbatim>\<open>.end()\<close> and the address of a character need.
\<close>

fun arg_declared :: "error_type \<Rightarrow> format_arg \<Rightarrow> bool" where
  "arg_declared K (Arg_field f) = (field_type_of K f \<noteq> None)"
| "arg_declared K (Arg_span_begin_end f g) =
     (field_type_of K f = Some source_code_span_t \<and> field_type_of K g = Some source_code_span_t)"
| "arg_declared K (Arg_string8_view_1 f) = (field_type_of K f = Some char8_t)"

fun arg_fields :: "format_arg \<Rightarrow> string list" where
  "arg_fields (Arg_field f) = [f]"
| "arg_fields (Arg_span_begin_end f g) = [f, g]"
| "arg_fields (Arg_string8_view_1 f) = [f]"

fun is_plain_field :: "format_arg \<Rightarrow> bool" where
  "is_plain_field (Arg_field f) = True"
| "is_plain_field a = False"

text \<open>One primary message (\<^verbatim>\<open>.error\<close> or \<^verbatim>\<open>.warning\<close>) first, then notes only.\<close>

definition template_ok :: "error_type \<Rightarrow> bool" where
  "template_ok K =
     (case format_calls K of
        [] \<Rightarrow> False
      | p # ns \<Rightarrow> is_primary p \<and> list_all is_note ns)"

definition args_ok :: "error_type \<Rightarrow> bool" where
  "args_ok K =
     list_all (\<lambda>c. call_args c \<noteq> [] \<and> list_all (arg_declared K) (call_args c) \<and>
                   (\<not> is_note c \<or> list_all is_plain_field (call_args c)))
       (format_calls K)"

definition declared_notes :: "error_type \<Rightarrow> format_call list" where
  "declared_notes K = filter is_note (format_calls K)"

subsection \<open>Diagnostic values\<close>

text \<open>
  A value of a diagnostic structure: its fields by name. An identifier is its span and
  its name, a span its two offsets, the two enumerations their enumerator's number.
\<close>

datatype field_value =
    V_identifier nat nat string
  | V_source_code_span nat nat
  | V_char8 char
  | V_statement_kind nat
  | V_variable_kind nat
  | V_string8_view string

type_synonym diagnostic = "(string \<times> field_value) list"

text \<open>What an argument of the table evaluates to on a diagnostic value.\<close>

fun resolve :: "diagnostic \<Rightarrow> format_arg \<Rightarrow> field_value option" where
  "resolve d (Arg_field f) = map_of d f"
| "resolve d (Arg_span_begin_end f g) =
     (case (map_of d f, map_of d g) of
        (Some (V_source_code_span b1 e1), Some (V_source_code_span b2 e2)) \<Rightarrow>
          Some (V_source_code_span b1 e2)
      | _ \<Rightarrow> None)"
| "resolve d (Arg_string8_view_1 f) =
     (case map_of d f of Some (V_char8 c) \<Rightarrow> Some (V_string8_view [c]) | _ \<Rightarrow> None)"

subsection \<open>Formatting\<close>

datatype message_kind = Error_message | Warning_message | Note_message

record formatted_message =
  msg_kind :: message_kind
  msg_template :: string
  msg_arguments :: "field_value option list"

fun format_message :: "diagnostic \<Rightarrow> format_call \<Rightarrow> formatted_message" where
  "format_message d (fmt_error m as) =
     \<lparr>msg_kind = Error_message, msg_template = m, msg_arguments = map (resolve d) as\<rparr>"
| "format_message d (fmt_warning m as) =
     \<lparr>msg_kind = Warning_message, msg_template = m, msg_arguments = map (resolve d) as\<rparr>"
| "format_message d (fmt_note m as) =
     \<lparr>msg_kind = Note_message, msg_template = m, msg_arguments = map (resolve d) as\<rparr>"

text \<open>
  Modelled from the spec: the formatting service (error-formatter.h and the expansion of
  \<^verbatim>\<open>QLJS_ERROR_TYPE\<close> that drives it are not among the sources). From a diagnostic value
  it recovers "the primary message text with positional field interpolation" and "zero
  or more notes, each similarly bound to a subset of fields": one formatted message per
  call of the kind's template, in order, each with its message and its arguments in
  position. Translation and the substitution into the text are left to the service.
\<close>

definition format_error :: "error_type \<Rightarrow> diagnostic \<Rightarrow> formatted_message list" where
  "format_error K d = map (format_message d) (format_calls K)"

definition formatted_notes :: "formatted_message list \<Rightarrow> formatted_message list" where
  "formatted_notes ms = filter (\<lambda>m. msg_kind m = Note_message) ms"

subsection \<open>The reporters\<close>

text \<open>
  \<^verbatim>\<open>null_error_reporter\<close> has no data member and overrides \<^verbatim>\<open>report(name)\<close> with an empty
  body for every entry of the table. \<open>w\<close> stands for everything a call could have
  changed; \<open>None\<close> says that there is no \<^verbatim>\<open>report\<close> for a structure of that name.
\<close>

definition null_error_reporter_report :: "string \<Rightarrow> diagnostic \<Rightarrow> 'w \<Rightarrow> 'w option" where
  "null_error_reporter_report k d w =
     (if k \<in> set (map name QLJS_X_ERROR_TYPES) then Some w else None)"

section \<open>Properties of the event loop\<close>

subsection \<open>One read\<close>

lemma read_from_pipe_eof:
  "mode_ok b nb \<Longrightarrow> is_eof ev \<Longrightarrow>
   read_from_pipe b nb ev s = Ok (s\<lparr>done_flag := True\<rparr>) [Read_pipe ev]"
  by (auto simp: read_from_pipe_def mode_ok_def is_eof_def)

lemma read_from_pipe_chunk:
  "mode_ok b nb \<Longrightarrow> is_chunk ev \<Longrightarrow>
   read_from_pipe b nb ev s = Ok s [Read_pipe ev, Append (chunk_of ev)]"
  by (auto simp: read_from_pipe_def mode_ok_def is_chunk_def is_data_def chunk_of_def
      narrow_cast_size_t_def)

lemma read_from_pipe_retry:
  "mode_ok b nb \<Longrightarrow> is_retry ev \<Longrightarrow> have_unistd_h b \<Longrightarrow> target b = Have_poll \<Longrightarrow>
   read_from_pipe b nb ev s = Ok s [Read_pipe ev]"
  by (auto simp: read_from_pipe_def mode_ok_def is_retry_def is_error_def
      QLJS_EVENT_LOOP_READ_PIPE_NON_BLOCKING_def)

lemma read_from_pipe_fatal:
  "is_fatal ev \<Longrightarrow>
   \<exists>c tr. read_from_pipe b nb ev s = Abort c tr \<and> appends tr = [] \<and>
     (mode_ok b nb \<longrightarrow> c = Unimplemented \<and> tr = [Read_pipe ev])"
  by (auto simp: read_from_pipe_def mode_ok_def is_fatal_def is_error_def)

lemma read_from_pipe_empty:
  "mode_ok b nb \<Longrightarrow> assertions b \<Longrightarrow> is_data ev \<Longrightarrow> bytes_read (read_result ev) = 0 \<Longrightarrow>
   read_from_pipe b nb ev s = Abort Assertion_failed [Read_pipe ev]"
  by (auto simp: read_from_pipe_def mode_ok_def is_data_def)

lemma read_from_pipe_flag:
  "read_from_pipe b nb ev s = Ok s' tr \<Longrightarrow> done_flag s' = (done_flag s \<or> is_eof ev)"
  by (auto simp: read_from_pipe_def is_eof_def split: if_splits option.splits)

lemma read_from_pipe_same:
  "read_from_pipe b nb ev s = Ok s' tr \<Longrightarrow> \<not> done_flag s' \<Longrightarrow> s' = s"
  by (auto simp: read_from_pipe_def split: if_splits option.splits)

lemma read_from_pipe_trace:
  "read_from_pipe b nb ev s = Ok s' tr \<Longrightarrow>
   tr = [Read_pipe ev] \<or> (\<not> is_eof ev \<and> (\<exists>c. tr = [Read_pipe ev, Append c]))"
  by (auto simp: read_from_pipe_def is_eof_def split: if_splits option.splits)

lemma read_from_pipe_trace_abort:
  "read_from_pipe b nb ev s = Abort c tr \<Longrightarrow> tr = [] \<or> (tr = [Read_pipe ev] \<and> \<not> is_eof ev)"
  by (auto simp: read_from_pipe_def is_eof_def split: if_splits option.splits)

lemma chunk_not_retry: "is_chunk ev \<Longrightarrow> \<not> is_retry ev"
  by (simp add: is_chunk_def is_retry_def is_data_def is_error_def)

lemma read_from_pipe_benign:
  "mode_ok b nb \<Longrightarrow> benign b ev \<Longrightarrow>
   read_from_pipe b nb ev s =
     Ok s (Read_pipe ev # (if is_chunk ev then [Append (chunk_of ev)] else []))"
  using read_from_pipe_chunk [of b nb ev s] read_from_pipe_retry [of b nb ev s]
    chunk_not_retry [of ev]
  by (auto simp: benign_def)

subsection \<open>One wait\<close>

lemma wait_for_pipe_ready:
  "poll_ready b p \<Longrightarrow>
   wait_for_pipe b p = Ok () (if target b = Windows then [] else [Poll_pipe p])"
  by (auto simp: wait_for_pipe_def poll_ready_def split: platform.splits)

lemma wait_for_pipe_trace:
  "wait_for_pipe b p = Ok u tr \<Longrightarrow> tr = [] \<or> tr = [Poll_pipe p]"
  by (auto simp: wait_for_pipe_def split: platform.splits if_splits)

lemma wait_for_pipe_trace_abort:
  "wait_for_pipe b p = Abort c tr \<Longrightarrow> tr = [Poll_pipe p]"
  by (auto simp: wait_for_pipe_def split: platform.splits if_splits)

subsection \<open>Projections of a trace\<close>

lemma appends_append: "appends (xs @ ys) = appends xs @ appends ys"
  by (induction xs rule: appends.induct) simp_all

lemma read_events_append: "read_events (xs @ ys) = read_events xs @ read_events ys"
  by (induction xs rule: read_events.induct) simp_all

subsection \<open>The whole loop\<close>

lemma run_loop_done:
  "done_flag s \<Longrightarrow>
   run_loop b nb polls k evs s = \<lparr>outcome = Returned, final = s, trace = []\<rparr>"
  by (cases evs) simp_all

lemma run_loop_returned_iff_done:
  "outcome (run_loop b nb polls k evs s) = Returned \<longleftrightarrow>
   done_flag (final (run_loop b nb polls k evs s))"
proof (induction evs arbitrary: k s)
  case Nil
  show ?case by simp
next
  case (Cons ev evs)
  show ?case
  proof (cases "done_flag s")
    case True
    then show ?thesis by simp
  next
    case False
    show ?thesis
    proof (cases "read_from_pipe b nb ev s")
      case (Abort c tr)
      with False show ?thesis by simp
    next
      case (Ok s' tr)
      note rd = this
      show ?thesis
      proof (cases "done_flag s'")
        case True
        with False rd show ?thesis by simp
      next
        case nd: False
        show ?thesis
        proof (cases "wait_for_pipe b (polls k)")
          case (Abort c tr')
          with False rd nd show ?thesis by simp
        next
          case (Ok u tr')
          with False rd nd Cons.IH [of "Suc k" s'] show ?thesis by (simp add: Let_def)
        qed
      qed
    qed
  qed
qed

text \<open>
  Started with the flag clear, the loop returns exactly when its last action is a read
  at end-of-file, and no earlier read was at end-of-file.
\<close>

lemma run_loop_eof_last:
  "\<not> done_flag s \<Longrightarrow>
   (outcome (run_loop b nb polls k evs s) = Returned \<longrightarrow>
      (\<exists>tr ev. trace (run_loop b nb polls k evs s) = tr @ [Read_pipe ev] \<and> is_eof ev \<and>
         (\<forall>ev'. Read_pipe ev' \<in> set tr \<longrightarrow> \<not> is_eof ev'))) \<and>
   (outcome (run_loop b nb polls k evs s) \<noteq> Returned \<longrightarrow>
      (\<forall>ev'. Read_pipe ev' \<in> set (trace (run_loop b nb polls k evs s)) \<longrightarrow> \<not> is_eof ev'))"
proof (induction evs arbitrary: k s)
  case Nil
  then show ?case by simp
next
  case (Cons ev evs)
  note nds = \<open>\<not> done_flag s\<close>
  show ?case
  proof (cases "read_from_pipe b nb ev s")
    case (Abort c tr)
    with nds read_from_pipe_trace_abort [OF Abort] show ?thesis by auto
  next
    case (Ok s' tr)
    note rd = this
    have ds': "done_flag s' = is_eof ev"
      using read_from_pipe_flag [OF rd] nds by simp
    show ?thesis
    proof (cases "is_eof ev")
      case True
      have "tr = [Read_pipe ev]"
        using read_from_pipe_trace [OF rd] True by auto
      with nds rd ds' True show ?thesis by simp
    next
      case ne: False
      from read_from_pipe_trace [OF rd]
      have trs: "\<forall>ev'. Read_pipe ev' \<in> set tr \<longrightarrow> \<not> is_eof ev'"
        using ne by auto
      show ?thesis
      proof (cases "wait_for_pipe b (polls k)")
        case (Abort c tr')
        with nds rd ds' ne trs wait_for_pipe_trace_abort [OF Abort] show ?thesis by auto
      next
        case (Ok u tr')
        from wait_for_pipe_trace [OF Ok]
        have trs': "\<forall>ev'. Read_pipe ev' \<in> set tr' \<longrightarrow> \<not> is_eof ev'"
          by auto
        let ?r = "run_loop b nb polls (Suc k) evs s'"
        have eq: "run_loop b nb polls k (ev # evs) s = ?r\<lparr>trace := tr @ tr' @ trace ?r\<rparr>"
          using nds rd ds' ne Ok by (simp add: Let_def)
        have IH: "(outcome ?r = Returned \<longrightarrow>
            (\<exists>tr ev. trace ?r = tr @ [Read_pipe ev] \<and> is_eof ev \<and>
               (\<forall>ev'. Read_pipe ev' \<in> set tr \<longrightarrow> \<not> is_eof ev'))) \<and>
          (outcome ?r \<noteq> Returned \<longrightarrow>
            (\<forall>ev'. Read_pipe ev' \<in> set (trace ?r) \<longrightarrow> \<not> is_eof ev'))"
          using Cons.IH [of s' "Suc k"] ds' ne by simp
        show ?thesis
        proof (cases "outcome ?r = Returned")
          case True
          with IH obtain t e where t: "trace ?r = t @ [Read_pipe e]" "is_eof e"
            "\<forall>ev'. Read_pipe ev' \<in> set t \<longrightarrow> \<not> is_eof ev'" by blast
          have "trace (run_loop b nb polls k (ev # evs) s) = (tr @ tr' @ t) @ [Read_pipe e]"
            using eq t by simp
          moreover have "\<forall>ev'. Read_pipe ev' \<in> set (tr @ tr' @ t) \<longrightarrow> \<not> is_eof ev'"
            using trs trs' t by auto
          ultimately show ?thesis using True eq t(2) by simp
        next
          case False
          with IH trs trs' eq show ?thesis by auto
        qed
      qed
    qed
  qed
qed

lemma run_loop_eof_iff:
  assumes "\<not> done_flag s"
  shows "outcome (run_loop b nb polls k evs s) = Returned \<longleftrightarrow>
    (\<exists>ev. Read_pipe ev \<in> set (trace (run_loop b nb polls k evs s)) \<and> is_eof ev)"
proof (cases "outcome (run_loop b nb polls k evs s) = Returned")
  case True
  with run_loop_eof_last [OF assms, of b nb polls k evs]
  obtain tr ev where "trace (run_loop b nb polls k evs s) = tr @ [Read_pipe ev]" "is_eof ev"
    by blast
  then have "Read_pipe ev \<in> set (trace (run_loop b nb polls k evs s)) \<and> is_eof ev" by simp
  with True show ?thesis by blast
next
  case False
  with run_loop_eof_last [OF assms, of b nb polls k evs] show ?thesis by blast
qed

text \<open>A script of benign reads followed by an end-of-file read.\<close>

lemma run_loop_benign:
  assumes "mode_ok b nb" and "\<forall>j. poll_ready b (polls j)" and "is_eof e"
  shows "\<not> done_flag s \<Longrightarrow> \<forall>ev\<in>set evs. benign b ev \<Longrightarrow>
    outcome (run_loop b nb polls k (evs @ e # rest) s) = Returned \<and>
    final (run_loop b nb polls k (evs @ e # rest) s) = s\<lparr>done_flag := True\<rparr> \<and>
    appends (trace (run_loop b nb polls k (evs @ e # rest) s)) =
      map chunk_of (filter is_chunk evs) \<and>
    read_events (trace (run_loop b nb polls k (evs @ e # rest) s)) = evs @ [e]"
proof (induction evs arbitrary: k)
  case Nil
  then show ?case using read_from_pipe_eof [OF assms(1) assms(3), of s] by simp
next
  case (Cons ev evs)
  have b: "benign b ev" using Cons.prems by simp
  have w: "wait_for_pipe b (polls k) =
      Ok () (if target b = Windows then [] else [Poll_pipe (polls k)])"
    using wait_for_pipe_ready assms(2) by blast
  have IH: "outcome (run_loop b nb polls (Suc k) (evs @ e # rest) s) = Returned \<and>
    final (run_loop b nb polls (Suc k) (evs @ e # rest) s) = s\<lparr>done_flag := True\<rparr> \<and>
    appends (trace (run_loop b nb polls (Suc k) (evs @ e # rest) s)) =
      map chunk_of (filter is_chunk evs) \<and>
    read_events (trace (run_loop b nb polls (Suc k) (evs @ e # rest) s)) = evs @ [e]"
    using Cons.IH [of "Suc k"] Cons.prems by simp
  show ?case
    using Cons.prems(1) read_from_pipe_benign [OF assms(1) b, of s] w IH
    by (simp add: Let_def appends_append read_events_append)
qed

text \<open>A run that used up its script without stopping continues on a longer script.\<close>

lemma run_loop_pending:
  "outcome (run_loop b nb polls k pre s) = Pending \<Longrightarrow>
   \<not> done_flag s \<and> final (run_loop b nb polls k pre s) = s"
proof (induction pre arbitrary: k)
  case Nil
  then show ?case by (simp split: if_splits)
next
  case (Cons ev pre)
  have nd: "\<not> done_flag s" using Cons.prems by (auto split: if_splits)
  show ?case
  proof (cases "read_from_pipe b nb ev s")
    case (Abort c tr)
    with nd Cons.prems show ?thesis by simp
  next
    case (Ok s' tr)
    note rd = this
    have nd': "\<not> done_flag s'" using Cons.prems nd rd by (auto split: if_splits)
    have same: "s' = s" using read_from_pipe_same [OF rd nd'] .
    show ?thesis
    proof (cases "wait_for_pipe b (polls k)")
      case (Abort c tr')
      with nd rd nd' Cons.prems show ?thesis by simp
    next
      case (Ok u tr')
      with nd rd nd' Cons.prems same Cons.IH [of "Suc k"] show ?thesis
        by (simp add: Let_def)
    qed
  qed
qed

lemma run_loop_pending_append:
  "outcome (run_loop b nb polls k pre s) = Pending \<Longrightarrow>
   run_loop b nb polls k (pre @ post) s =
     (run_loop b nb polls (k + length pre) post s)
       \<lparr>trace := trace (run_loop b nb polls k pre s) @
          trace (run_loop b nb polls (k + length pre) post s)\<rparr>"
proof (induction pre arbitrary: k)
  case Nil
  then show ?case by simp
next
  case (Cons ev pre)
  have nd: "\<not> done_flag s" using run_loop_pending [OF Cons.prems] by simp
  show ?case
  proof (cases "read_from_pipe b nb ev s")
    case (Abort c tr)
    with nd Cons.prems show ?thesis by simp
  next
    case (Ok s' tr)
    note rd = this
    have nd': "\<not> done_flag s'" using Cons.prems nd rd by (auto split: if_splits)
    have same: "s' = s" using read_from_pipe_same [OF rd nd'] .
    show ?thesis
    proof (cases "wait_for_pipe b (polls k)")
      case (Abort c tr')
      with nd rd nd' Cons.prems show ?thesis by simp
    next
      case (Ok u tr')
      with nd rd nd' Cons.prems same Cons.IH [of "Suc k"] show ?thesis
        by (simp add: Let_def)
    qed
  qed
qed

text \<open>The reads a run makes are a prefix of what the pipe answers, in order.\<close>

lemma read_from_pipe_reads:
  "read_from_pipe b nb ev s = Ok s' tr \<Longrightarrow> read_events tr = [ev]"
  using read_from_pipe_trace [of b nb ev s s' tr] by auto

lemma read_from_pipe_reads_abort:
  "read_from_pipe b nb ev s = Abort c tr \<Longrightarrow> read_events tr = [] \<or> read_events tr = [ev]"
  using read_from_pipe_trace_abort [of b nb ev s c tr] by auto

lemma wait_for_pipe_reads:
  "wait_for_pipe b p = Ok u tr \<Longrightarrow> read_events tr = []"
  using wait_for_pipe_trace [of b p u tr] by auto

lemma wait_for_pipe_reads_abort:
  "wait_for_pipe b p = Abort c tr \<Longrightarrow> read_events tr = []"
  using wait_for_pipe_trace_abort [of b p c tr] by auto

lemma run_loop_reads_prefix:
  "\<exists>n. read_events (trace (run_loop b nb polls k evs s)) = take n evs"
proof (induction evs arbitrary: k s)
  case Nil
  show ?case by simp
next
  case (Cons ev evs)
  show ?case
  proof (cases "done_flag s")
    case True
    then have "read_events (trace (run_loop b nb polls k (ev # evs) s)) = take 0 (ev # evs)"
      by simp
    then show ?thesis by blast
  next
    case nd: False
    show ?thesis
    proof (cases "read_from_pipe b nb ev s")
      case (Abort c tr)
      from read_from_pipe_reads_abort [OF Abort]
      have "read_events tr = take 0 (ev # evs) \<or> read_events tr = take (Suc 0) (ev # evs)"
        by simp
      moreover have "trace (run_loop b nb polls k (ev # evs) s) = tr"
        using nd Abort by simp
      ultimately show ?thesis by metis
    next
      case (Ok s' tr)
      note rd = this
      have r1: "read_events tr = [ev]" using read_from_pipe_reads [OF rd] .
      show ?thesis
      proof (cases "done_flag s'")
        case True
        with nd rd r1 have "read_events (trace (run_loop b nb polls k (ev # evs) s)) =
            take (Suc 0) (ev # evs)" by simp
        then show ?thesis by blast
      next
        case nd': False
        show ?thesis
        proof (cases "wait_for_pipe b (polls k)")
          case (Abort c tr')
          with nd rd nd' r1 wait_for_pipe_reads_abort [OF Abort]
          have "read_events (trace (run_loop b nb polls k (ev # evs) s)) =
              take (Suc 0) (ev # evs)" by (simp add: read_events_append)
          then show ?thesis by blast
        next
          case (Ok u tr')
          from Cons.IH [of "Suc k" s'] obtain n where
            n: "read_events (trace (run_loop b nb polls (Suc k) evs s')) = take n evs" by blast
          with nd rd nd' r1 Ok wait_for_pipe_reads [OF Ok]
          have "read_events (trace (run_loop b nb polls k (ev # evs) s)) =
              take (Suc n) (ev # evs)" by (simp add: Let_def read_events_append)
          then show ?thesis by blast
        qed
      qed
    qed
  qed
qed

lemma run_loop_pending_reads:
  "outcome (run_loop b nb polls k evs s) = Pending \<Longrightarrow>
   read_events (trace (run_loop b nb polls k evs s)) = evs"
proof (induction evs arbitrary: k)
  case Nil
  then show ?case by (simp split: if_splits)
next
  case (Cons ev evs)
  have nd: "\<not> done_flag s" using run_loop_pending [OF Cons.prems] by simp
  show ?case
  proof (cases "read_from_pipe b nb ev s")
    case (Abort c tr)
    with nd Cons.prems show ?thesis by simp
  next
    case (Ok s' tr)
    note rd = this
    have nd': "\<not> done_flag s'" using Cons.prems nd rd by (auto split: if_splits)
    have same: "s' = s" using read_from_pipe_same [OF rd nd'] .
    have r1: "read_events tr = [ev]" using read_from_pipe_reads [OF rd] .
    show ?thesis
    proof (cases "wait_for_pipe b (polls k)")
      case (Abort c tr')
      with nd rd nd' Cons.prems show ?thesis by simp
    next
      case (Ok u tr')
      with nd rd nd' Cons.prems same Cons.IH [of "Suc k"] r1 wait_for_pipe_reads [OF Ok]
      show ?thesis by (simp add: Let_def read_events_append)
    qed
  qed
qed

lemma read_events_mem: "ev \<in> set (read_events tr) \<longleftrightarrow> Read_pipe ev \<in> set tr"
  by (induction tr rule: read_events.induct) auto

lemma run_loop_no_eof:
  assumes "\<not> done_flag s" and "\<forall>ev\<in>set evs. \<not> is_eof ev"
  shows "outcome (run_loop b nb polls k evs s) \<noteq> Returned"
proof
  assume "outcome (run_loop b nb polls k evs s) = Returned"
  with run_loop_eof_iff [OF assms(1), of b nb polls k evs] obtain ev where
    e: "Read_pipe ev \<in> set (trace (run_loop b nb polls k evs s))" "is_eof ev" by blast
  from run_loop_reads_prefix [of b nb polls k evs s] obtain n where
    "read_events (trace (run_loop b nb polls k evs s)) = take n evs" by blast
  moreover have "ev \<in> set (read_events (trace (run_loop b nb polls k evs s)))"
    using e(1) by (simp add: read_events_mem)
  ultimately have "ev \<in> set (take n evs)" by simp
  then have "ev \<in> set evs" by (rule in_set_takeD)
  with assms(2) e(2) show False by blast
qed


lemma run_loop_returned_split:
  assumes "\<not> done_flag s" and "outcome (run_loop b nb polls k evs s) = Returned"
  shows "\<exists>pre e post. evs = pre @ e # post \<and> is_eof e \<and> (\<forall>ev\<in>set pre. \<not> is_eof ev) \<and>
    read_events (trace (run_loop b nb polls k evs s)) = pre @ [e]"
proof -
  from run_loop_eof_last [OF assms(1), of b nb polls k evs] assms(2)
  obtain tr e where t: "trace (run_loop b nb polls k evs s) = tr @ [Read_pipe e]" "is_eof e"
    "\<forall>ev'. Read_pipe ev' \<in> set tr \<longrightarrow> \<not> is_eof ev'" by blast
  from run_loop_reads_prefix [of b nb polls k evs s] obtain n where
    n: "read_events (trace (run_loop b nb polls k evs s)) = take n evs" by blast
  have r: "read_events (trace (run_loop b nb polls k evs s)) = read_events tr @ [e]"
    using t(1) by (simp add: read_events_append)
  have tk: "take n evs = read_events tr @ [e]" using n r by simp
  have "evs = (read_events tr @ [e]) @ drop n evs"
    by (metis tk append_take_drop_id)
  then have "evs = read_events tr @ e # drop n evs" by simp
  moreover have "\<forall>ev\<in>set (read_events tr). \<not> is_eof ev"
    using t(3) by (simp add: read_events_mem)
  ultimately show ?thesis using t(2) r by blast
qed

lemma run_loop_fatal:
  assumes "is_fatal ev" and "outcome (run_loop b nb polls k pre s) = Pending"
  shows "\<exists>c tr. run_loop b nb polls k (pre @ ev # post) s =
      \<lparr>outcome = Crashed c, final = s, trace = trace (run_loop b nb polls k pre s) @ tr\<rparr> \<and>
      appends tr = [] \<and> (mode_ok b nb \<longrightarrow> c = Unimplemented \<and> tr = [Read_pipe ev])"
proof -
  have nd: "\<not> done_flag s" using run_loop_pending [OF assms(2)] by simp
  from read_from_pipe_fatal [OF assms(1), of b nb s] obtain c tr where
    a: "read_from_pipe b nb ev s = Abort c tr" "appends tr = []"
       "mode_ok b nb \<longrightarrow> c = Unimplemented \<and> tr = [Read_pipe ev]" by blast
  have "run_loop b nb polls (k + length pre) (ev # post) s =
      \<lparr>outcome = Crashed c, final = s, trace = tr\<rparr>"
    using nd a(1) by simp
  then have "run_loop b nb polls k (pre @ ev # post) s =
      \<lparr>outcome = Crashed c, final = s, trace = trace (run_loop b nb polls k pre s) @ tr\<rparr>"
    using run_loop_pending_append [OF assms(2), of "ev # post"] by simp
  with a show ?thesis by blast
qed

lemma run_loop_chunk_step:
  assumes "mode_ok b nb" "\<not> done_flag s" "is_chunk ev"
  shows "(target b = Have_poll \<longrightarrow>
      (\<exists>rest. trace (run_loop b nb polls k (ev # evs) s) =
         [Read_pipe ev, Append (chunk_of ev), Poll_pipe (polls k)] @ rest)) \<and>
    (target b = Have_poll \<and> poll_ready b (polls k) \<longrightarrow>
       trace (run_loop b nb polls k (ev # evs) s) =
         [Read_pipe ev, Append (chunk_of ev), Poll_pipe (polls k)] @
           trace (run_loop b nb polls (Suc k) evs s)) \<and>
    (target b = Windows \<longrightarrow>
       trace (run_loop b nb polls k (ev # evs) s) =
         [Read_pipe ev, Append (chunk_of ev)] @ trace (run_loop b nb polls (Suc k) evs s))"
proof -
  have rd: "read_from_pipe b nb ev s = Ok s [Read_pipe ev, Append (chunk_of ev)]"
    using read_from_pipe_chunk assms by blast
  show ?thesis
  proof (cases "wait_for_pipe b (polls k)")
    case (Abort c tr')
    with wait_for_pipe_trace_abort [OF Abort] wait_for_pipe_ready [of b "polls k"] assms(2) rd
    show ?thesis by (auto simp: wait_for_pipe_def)
  next
    case (Ok u tr')
    with assms(2) rd show ?thesis
      by (auto simp: Let_def wait_for_pipe_def split: platform.splits if_splits)
  qed
qed

section \<open>Properties of the taxonomy\<close>

lemma QLJS_X_ERROR_TYPES_templates: "list_all template_ok QLJS_X_ERROR_TYPES"
  by code_simp

lemma QLJS_X_ERROR_TYPES_args: "list_all args_ok QLJS_X_ERROR_TYPES"
  by code_simp

lemma QLJS_X_ERROR_TYPES_length: "length QLJS_X_ERROR_TYPES = 160"
  by (simp add: QLJS_X_ERROR_TYPES_def)

lemma QLJS_X_ERROR_TYPES_codes: "distinct (map code QLJS_X_ERROR_TYPES)"
  by code_simp

lemma first_entry: "error_assignment_before_variable_declaration \<in> set QLJS_X_ERROR_TYPES"
  by (simp add: QLJS_X_ERROR_TYPES_def error_assignment_before_variable_declaration_def)

lemma second_entry: "error_assignment_to_const_global_variable \<in> set QLJS_X_ERROR_TYPES"
  by (simp add: QLJS_X_ERROR_TYPES_def error_assignment_to_const_global_variable_def)

lemma format_message_note: "(msg_kind (format_message d c) = Note_message) = is_note c"
  by (cases c) (simp_all add: is_note_def)

lemma formatted_notes_count:
  "length (formatted_notes (map (format_message d) cs)) = length (filter is_note cs)"
  by (induction cs) (simp_all add: formatted_notes_def format_message_note)

lemma field_type_of_declared:
  "field_type_of K f \<noteq> None \<Longrightarrow> f \<in> snd ` set (struct_body K)"
  unfolding field_type_of_def map_of_eq_None_iff
  by (force simp: image_iff split: prod.splits)

lemma arg_declared_fields:
  "arg_declared K a \<Longrightarrow> set (arg_fields a) \<subseteq> snd ` set (struct_body K)"
  by (cases a) (auto intro: field_type_of_declared)

lemma primary_not_note: "is_primary p \<Longrightarrow> \<not> is_note p"
  by (cases p) (simp_all add: is_primary_def is_note_def)

lemma filter_all_notes: "list_all is_note ns \<Longrightarrow> filter is_note ns = ns"
  by (induction ns) simp_all

section \<open>The claims\<close>

subsection \<open>C1\<close>

text \<open>
  Claim C1. Whatever the pipe answers, \<^verbatim>\<open>run\<close> on a fresh loop returns exactly when a
  read reports end-of-stream. The reads it makes are the answers of the pipe in order,
  from the first on, and it goes on reading as long as it has neither returned nor
  crashed: a run that is still going has read every answer so far. It returns if and
  only if it made a read at end-of-file; that read is then its last action, it is the
  first end-of-file answer of the pipe, and everything before it was read. A pipe that
  never answers end-of-file never lets \<^verbatim>\<open>run\<close> return. Where the answers before the
  first end-of-file are non-empty chunks or retried "no data yet" conditions (the pipe in
  the mode the build expects, every wait letting the loop go on), \<^verbatim>\<open>run\<close> does return,
  having read exactly up to that end-of-file. For a source that signals end-of-stream at
  once, \<^verbatim>\<open>run\<close> returns after that one read, with \<^verbatim>\<open>append\<close> called zero times.
\<close>

theorem run_returns_exactly_at_end_of_stream:
  assumes "\<not> done_flag s"
  shows "(outcome (run b nb evs polls s) = Returned \<longleftrightarrow>
            (\<exists>ev. Read_pipe ev \<in> set (trace (run b nb evs polls s)) \<and> is_eof ev)) \<and>
         (outcome (run b nb evs polls s) = Returned \<longrightarrow>
            (\<exists>tr ev. trace (run b nb evs polls s) = tr @ [Read_pipe ev] \<and> is_eof ev \<and>
               (\<forall>ev'. Read_pipe ev' \<in> set tr \<longrightarrow> \<not> is_eof ev'))) \<and>
         (mode_ok b nb \<and> is_eof e \<longrightarrow>
            run b nb (e # rest) polls s =
              \<lparr>outcome = Returned, final = s\<lparr>done_flag := True\<rparr>, trace = [Read_pipe e]\<rparr> \<and>
            appends (trace (run b nb (e # rest) polls s)) = []) \<and>
         (\<exists>n. read_events (trace (run b nb evs polls s)) = take n evs) \<and>
         (outcome (run b nb evs polls s) = Pending \<longrightarrow>
            read_events (trace (run b nb evs polls s)) = evs) \<and>
         (outcome (run b nb evs polls s) = Returned \<longrightarrow>
            (\<exists>pre e post. evs = pre @ e # post \<and> is_eof e \<and> (\<forall>ev\<in>set pre. \<not> is_eof ev) \<and>
               read_events (trace (run b nb evs polls s)) = pre @ [e])) \<and>
         ((\<forall>ev\<in>set evs. \<not> is_eof ev) \<longrightarrow> outcome (run b nb evs polls s) \<noteq> Returned) \<and>
         (mode_ok b nb \<and> (\<forall>j. poll_ready b (polls j)) \<and> (\<forall>ev\<in>set pre. benign b ev) \<and>
          is_eof e \<longrightarrow>
            outcome (run b nb (pre @ e # rest) polls s) = Returned \<and>
            read_events (trace (run b nb (pre @ e # rest) polls s)) = pre @ [e])"
proof (intro conjI impI)
  show "outcome (run b nb evs polls s) = Returned \<longleftrightarrow>
      (\<exists>ev. Read_pipe ev \<in> set (trace (run b nb evs polls s)) \<and> is_eof ev)"
    unfolding run_def using run_loop_eof_iff [OF assms] .
next
  assume "outcome (run b nb evs polls s) = Returned"
  then show "\<exists>tr ev. trace (run b nb evs polls s) = tr @ [Read_pipe ev] \<and> is_eof ev \<and>
      (\<forall>ev'. Read_pipe ev' \<in> set tr \<longrightarrow> \<not> is_eof ev')"
    unfolding run_def using run_loop_eof_last [OF assms, of b nb polls 0 evs] by blast
next
  assume h: "mode_ok b nb \<and> is_eof e"
  then have rd: "read_from_pipe b nb e s = Ok (s\<lparr>done_flag := True\<rparr>) [Read_pipe e]"
    using read_from_pipe_eof by blast
  show r: "run b nb (e # rest) polls s =
      \<lparr>outcome = Returned, final = s\<lparr>done_flag := True\<rparr>, trace = [Read_pipe e]\<rparr>"
    using assms rd by (simp add: run_def)
  show "appends (trace (run b nb (e # rest) polls s)) = []"
    by (simp add: r)
next
  show "\<exists>n. read_events (trace (run b nb evs polls s)) = take n evs"
    unfolding run_def by (rule run_loop_reads_prefix)
next
  assume "outcome (run b nb evs polls s) = Pending"
  then show "read_events (trace (run b nb evs polls s)) = evs"
    unfolding run_def by (rule run_loop_pending_reads)
next
  assume "outcome (run b nb evs polls s) = Returned"
  then show "\<exists>pre e post. evs = pre @ e # post \<and> is_eof e \<and> (\<forall>ev\<in>set pre. \<not> is_eof ev) \<and>
      read_events (trace (run b nb evs polls s)) = pre @ [e]"
    unfolding run_def using run_loop_returned_split [OF assms] by blast
next
  assume "\<forall>ev\<in>set evs. \<not> is_eof ev"
  then show "outcome (run b nb evs polls s) \<noteq> Returned"
    unfolding run_def using run_loop_no_eof [OF assms] by blast
next
  assume h: "mode_ok b nb \<and> (\<forall>j. poll_ready b (polls j)) \<and> (\<forall>ev\<in>set pre. benign b ev) \<and>
    is_eof e"
  then have m: "mode_ok b nb" and p: "\<forall>j. poll_ready b (polls j)"
    and bn: "\<forall>ev\<in>set pre. benign b ev" and e: "is_eof e" by blast+
  from run_loop_benign [OF m p e assms bn, of 0 rest]
  show "outcome (run b nb (pre @ e # rest) polls s) = Returned"
    and "read_events (trace (run b nb (pre @ e # rest) polls s)) = pre @ [e]"
    unfolding run_def by blast+
qed

text \<open>
  The theorem of C1 at a source that is at end-of-stream from the start, at the source
  \<open>["ab"]\<close> followed by end-of-stream, and at the source \<open>["ab"]\<close> that has not ended.
\<close>

theorem run_returns_exactly_at_end_of_stream_witness:
  "\<not> done_flag event_loop_init \<and> mode_ok (posix_build True) True \<and> is_eof eof_read \<and>
   poll_ready (posix_build True) readable \<and> benign (posix_build True) (chunk_read ''ab'') \<and>
   \<not> is_eof (chunk_read ''ab'') \<and>
   outcome (run (posix_build True) True [eof_read] (\<lambda>k. readable) event_loop_init) = Returned \<and>
   appends (trace (run (posix_build True) True [eof_read] (\<lambda>k. readable) event_loop_init)) = [] \<and>
   outcome (run (posix_build True) True [chunk_read ''ab'', eof_read] (\<lambda>k. readable)
     event_loop_init) = Returned \<and>
   read_events (trace (run (posix_build True) True [chunk_read ''ab'', eof_read] (\<lambda>k. readable)
     event_loop_init)) = [chunk_read ''ab'', eof_read] \<and>
   outcome (run (posix_build True) True [chunk_read ''ab''] (\<lambda>k. readable) event_loop_init) =
     Pending \<and>
   read_events (trace (run (posix_build True) True [chunk_read ''ab''] (\<lambda>k. readable)
     event_loop_init)) = [chunk_read ''ab'']"
proof -
  have h: "\<not> done_flag event_loop_init" by (simp add: event_loop_init_def)
  have m: "mode_ok (posix_build True) True \<and> is_eof eof_read"
    by (simp add: mode_ok_def posix_build_def QLJS_EVENT_LOOP_READ_PIPE_NON_BLOCKING_def
        is_eof_def eof_read_def)
  have p: "poll_ready (posix_build True) readable"
    by (simp add: poll_ready_def posix_build_def readable_def POLLIN_def)
  have c: "benign (posix_build True) (chunk_read ''ab'') \<and> \<not> is_eof (chunk_read ''ab'')"
    by (simp add: benign_def is_chunk_def is_data_def is_eof_def chunk_read_def)
  have q: "outcome (run (posix_build True) True [chunk_read ''ab''] (\<lambda>k. readable)
      event_loop_init) = Pending"
    by code_simp
  from run_returns_exactly_at_end_of_stream [OF h, where b = "posix_build True" and nb = True
      and evs = "[chunk_read ''ab'']" and polls = "\<lambda>k. readable" and e = eof_read
      and rest = "[]" and pre = "[chunk_read ''ab'']"] m p c q
  have r: "read_events (trace (run (posix_build True) True [chunk_read ''ab''] (\<lambda>k. readable)
        event_loop_init)) = [chunk_read ''ab''] \<and>
    outcome (run (posix_build True) True [eof_read] (\<lambda>k. readable) event_loop_init) = Returned \<and>
    appends (trace (run (posix_build True) True [eof_read] (\<lambda>k. readable) event_loop_init)) = [] \<and>
    outcome (run (posix_build True) True [chunk_read ''ab'', eof_read] (\<lambda>k. readable)
      event_loop_init) = Returned \<and>
    read_events (trace (run (posix_build True) True [chunk_read ''ab'', eof_read] (\<lambda>k. readable)
      event_loop_init)) = [chunk_read ''ab'', eof_read]"
    by simp
  with h m p c q show ?thesis by blast
qed

subsection \<open>C2\<close>

text \<open>
  Claim C2, as amended. For every script of reads made of non-empty chunks (and, where
  the build retries it, the "no data yet" condition) followed by a read at end-of-file,
  with the pipe in the mode the build expects and every readiness wait letting the loop
  go on, \<^verbatim>\<open>run\<close> returns, it has read exactly these reads, and \<^verbatim>\<open>append\<close> has received
  exactly the chunks read, one call per chunk, each verbatim and in the order read. A
  read of zero bytes that is neither an error nor end-of-file is not forwarded by a build
  with assertions: the process stops at \<^verbatim>\<open>QLJS_ASSERT(read_result.bytes_read != 0)\<close>.
\<close>

theorem chunks_delivered_in_order:
  assumes "mode_ok b nb" and "\<forall>j. poll_ready b (polls j)" and "is_eof e"
    and "\<not> done_flag s" and "\<forall>ev\<in>set evs. benign b ev"
  shows "outcome (run b nb (evs @ e # rest) polls s) = Returned \<and>
    appends (trace (run b nb (evs @ e # rest) polls s)) = map chunk_of (filter is_chunk evs) \<and>
    read_events (trace (run b nb (evs @ e # rest) polls s)) = evs @ [e] \<and>
    (\<forall>ev. assertions b \<and> is_data ev \<and> bytes_read (read_result ev) = 0 \<longrightarrow>
       read_from_pipe b nb ev s = Abort Assertion_failed [Read_pipe ev])"
  unfolding run_def
  using run_loop_benign [OF assms(1) assms(2) assms(3) assms(4) assms(5), of 0 rest]
    read_from_pipe_empty [OF assms(1)]
  by blast

text \<open>The theorem of C2 at the source \<open>["ab", "cd"]\<close>, then end-of-stream.\<close>

theorem chunks_delivered_in_order_witness:
  "mode_ok (posix_build True) True \<and> (\<forall>j. poll_ready (posix_build True) readable) \<and>
   is_eof eof_read \<and> \<not> done_flag event_loop_init \<and>
   benign (posix_build True) (chunk_read ''ab'') \<and>
   benign (posix_build True) (chunk_read ''cd'') \<and>
   outcome (run (posix_build True) True [chunk_read ''ab'', chunk_read ''cd'', eof_read]
     (\<lambda>k. readable) event_loop_init) = Returned \<and>
   appends (trace (run (posix_build True) True [chunk_read ''ab'', chunk_read ''cd'', eof_read]
     (\<lambda>k. readable) event_loop_init)) = [''ab'', ''cd''] \<and>
   assertions (posix_build True) \<and> is_data (chunk_read []) \<and>
   bytes_read (read_result (chunk_read [])) = 0 \<and>
   read_from_pipe (posix_build True) True (chunk_read []) event_loop_init =
     Abort Assertion_failed [Read_pipe (chunk_read [])]"
proof -
  have z: "assertions (posix_build True) \<and> is_data (chunk_read []) \<and>
      bytes_read (read_result (chunk_read [])) = 0"
    by (simp add: posix_build_def is_data_def chunk_read_def)
  have m: "mode_ok (posix_build True) True"
    by (simp add: mode_ok_def posix_build_def QLJS_EVENT_LOOP_READ_PIPE_NON_BLOCKING_def)
  have p: "\<forall>j. poll_ready (posix_build True) ((\<lambda>k. readable) j)"
    by (simp add: poll_ready_def posix_build_def readable_def POLLIN_def)
  have e: "is_eof eof_read" by (simp add: is_eof_def eof_read_def)
  have s: "\<not> done_flag event_loop_init" by (simp add: event_loop_init_def)
  have c: "is_chunk (chunk_read ''ab'') \<and> is_chunk (chunk_read ''cd'')"
    by (simp add: is_chunk_def is_data_def chunk_read_def)
  then have b: "\<forall>ev\<in>set [chunk_read ''ab'', chunk_read ''cd'']. benign (posix_build True) ev"
    by (simp add: benign_def)
  have v: "chunk_of (chunk_read ''ab'') = ''ab'' \<and> chunk_of (chunk_read ''cd'') = ''cd''"
    by (simp add: chunk_of_def chunk_read_def)
  from chunks_delivered_in_order [OF m p e s b, of "[]"] m p e s b c v z
  show ?thesis by simp
qed

text \<open>
  Claim C2 as stated fails at the source \<open>["ab", "", "cd"]\<close>, then end-of-stream: a build
  with assertions stops at the empty read, having forwarded \<open>"ab"\<close> only and without
  returning; a build without assertions forwards the empty chunk too.
\<close>

theorem chunks_delivered_in_order_counterexample:
  "outcome (run (posix_build True) True
      [chunk_read ''ab'', chunk_read [], chunk_read ''cd'', eof_read]
      (\<lambda>k. readable) event_loop_init) = Crashed Assertion_failed \<and>
   appends (trace (run (posix_build True) True
      [chunk_read ''ab'', chunk_read [], chunk_read ''cd'', eof_read]
      (\<lambda>k. readable) event_loop_init)) = [''ab''] \<and>
   appends (trace (run (posix_build False) True
      [chunk_read ''ab'', chunk_read [], chunk_read ''cd'', eof_read]
      (\<lambda>k. readable) event_loop_init)) = [''ab'', [], ''cd'']"
  by code_simp

subsection \<open>C3\<close>

text \<open>
  Claim C3, as amended. On the build that reads a non-blocking pipe and tests for the
  condition (\<^verbatim>\<open>poll\<close> and \<^verbatim>\<open>unistd.h\<close> present), with the pipe in the mode the build
  expects and every readiness wait letting the loop go on, a read that reports the "no
  data yet" condition is not fatal and the
  delegate does not see it: the read leaves the loop as it was and calls nothing. For
  every script that starts with such reads (two, or any other number), then yields a
  chunk, then end-of-stream, \<^verbatim>\<open>run\<close> returns and \<^verbatim>\<open>append\<close> is called exactly once, with
  that chunk.
\<close>

theorem retry_is_invisible:
  assumes "target b = Have_poll" and "have_unistd_h b" and "mode_ok b nb"
    and "\<forall>j. poll_ready b (polls j)" and "\<not> done_flag s"
    and "\<forall>r\<in>set rs. is_retry r" and "is_chunk c" and "is_eof e"
  shows "(\<forall>r\<in>set rs. read_from_pipe b nb r s = Ok s [Read_pipe r]) \<and>
    outcome (run b nb (rs @ c # e # rest) polls s) = Returned \<and>
    appends (trace (run b nb (rs @ c # e # rest) polls s)) = [chunk_of c]"
proof -
  have f: "filter is_chunk rs = []"
    using assms(6) chunk_not_retry by (auto simp: filter_empty_conv)
  have b: "\<forall>ev\<in>set (rs @ [c]). benign b ev"
    using assms(1) assms(2) assms(6) assms(7) by (auto simp: benign_def)
  have "outcome (run_loop b nb polls 0 ((rs @ [c]) @ e # rest) s) = Returned \<and>
    appends (trace (run_loop b nb polls 0 ((rs @ [c]) @ e # rest) s)) =
      map chunk_of (filter is_chunk (rs @ [c]))"
    using run_loop_benign [OF assms(3) assms(4) assms(8) assms(5) b, of 0 rest] by blast
  then have "outcome (run b nb (rs @ c # e # rest) polls s) = Returned \<and>
    appends (trace (run b nb (rs @ c # e # rest) polls s)) = [chunk_of c]"
    using f assms(7) by (simp add: run_def)
  moreover have "\<forall>r\<in>set rs. read_from_pipe b nb r s = Ok s [Read_pipe r]"
    using read_from_pipe_retry [OF assms(3) _ assms(2) assms(1)] assms(6) by blast
  ultimately show ?thesis by blast
qed

text \<open>
  The theorem of C3 at the source that raises "no data yet" twice, yields \<open>"x"\<close> and
  ends.
\<close>

theorem retry_is_invisible_witness:
  "target (posix_build True) = Have_poll \<and> have_unistd_h (posix_build True) \<and>
   mode_ok (posix_build True) True \<and> (\<forall>j. poll_ready (posix_build True) readable) \<and>
   \<not> done_flag event_loop_init \<and> is_retry again_read \<and>
   is_chunk (chunk_read ''x'') \<and> is_eof eof_read \<and>
   outcome (run (posix_build True) True [again_read, again_read, chunk_read ''x'', eof_read]
     (\<lambda>k. readable) event_loop_init) = Returned \<and>
   appends (trace (run (posix_build True) True
     [again_read, again_read, chunk_read ''x'', eof_read]
     (\<lambda>k. readable) event_loop_init)) = [''x'']"
proof -
  have t: "target (posix_build True) = Have_poll" by (simp add: posix_build_def)
  have u: "have_unistd_h (posix_build True)" by (simp add: posix_build_def)
  have m: "mode_ok (posix_build True) True"
    by (simp add: mode_ok_def posix_build_def QLJS_EVENT_LOOP_READ_PIPE_NON_BLOCKING_def)
  have p: "\<forall>j. poll_ready (posix_build True) ((\<lambda>k. readable) j)"
    by (simp add: poll_ready_def posix_build_def readable_def POLLIN_def)
  have s: "\<not> done_flag event_loop_init" by (simp add: event_loop_init_def)
  have r: "\<forall>r\<in>set [again_read, again_read]. is_retry r"
    by (simp add: is_retry_def is_error_def again_read_def)
  have c: "is_chunk (chunk_read ''x'')"
    by (simp add: is_chunk_def is_data_def chunk_read_def)
  have e: "is_eof eof_read" by (simp add: is_eof_def eof_read_def)
  have v: "chunk_of (chunk_read ''x'') = ''x''" by (simp add: chunk_of_def chunk_read_def)
  from retry_is_invisible [OF t u m p s r c e, of "[]"] t u m p s r c e v
  show ?thesis by simp
qed

text \<open>
  Claim C3 as stated fails on the other builds, at the source that raises "no data
  yet" twice, yields \<open>"x"\<close> and ends: the Windows build (with \<^verbatim>\<open>unistd.h\<close>) stops at
  \<^verbatim>\<open>QLJS_UNREACHABLE\<close> on the first read, and a build with \<^verbatim>\<open>poll\<close> but without
  \<^verbatim>\<open>unistd.h\<close> stops at \<^verbatim>\<open>QLJS_UNIMPLEMENTED\<close>; neither returns and \<open>"x"\<close> is never
  forwarded.
\<close>

theorem retry_is_invisible_counterexample:
  "outcome (run \<lparr>target = Windows, have_unistd_h = True, assertions = True\<rparr> False
      [again_read, again_read, chunk_read ''x'', eof_read] (\<lambda>k. readable) event_loop_init) =
     Crashed Unreachable \<and>
   appends (trace (run \<lparr>target = Windows, have_unistd_h = True, assertions = True\<rparr> False
      [again_read, again_read, chunk_read ''x'', eof_read] (\<lambda>k. readable) event_loop_init)) =
     [] \<and>
   outcome (run \<lparr>target = Have_poll, have_unistd_h = False, assertions = True\<rparr> True
      [again_read, again_read, chunk_read ''x'', eof_read] (\<lambda>k. readable) event_loop_init) =
     Crashed Unimplemented \<and>
   appends (trace (run \<lparr>target = Have_poll, have_unistd_h = False, assertions = True\<rparr> True
      [again_read, again_read, chunk_read ''x'', eof_read] (\<lambda>k. readable) event_loop_init)) =
     []"
  by code_simp

subsection \<open>C4\<close>

text \<open>
  Claim C4. Over all 160 entries of \<^verbatim>\<open>QLJS_X_ERROR_TYPES\<close> the codes are pairwise
  different: no code appears at two places of the table, and two different kinds of the
  table never have the same code.
\<close>

theorem error_codes_unique:
  "distinct (map code QLJS_X_ERROR_TYPES) \<and> length QLJS_X_ERROR_TYPES = 160 \<and>
   (\<forall>K1\<in>set QLJS_X_ERROR_TYPES. \<forall>K2\<in>set QLJS_X_ERROR_TYPES.
      K1 \<noteq> K2 \<longrightarrow> code K1 \<noteq> code K2)"
proof -
  have "inj_on code (set QLJS_X_ERROR_TYPES)"
    using QLJS_X_ERROR_TYPES_codes by (simp add: distinct_map)
  then have "\<forall>K1\<in>set QLJS_X_ERROR_TYPES. \<forall>K2\<in>set QLJS_X_ERROR_TYPES.
      K1 \<noteq> K2 \<longrightarrow> code K1 \<noteq> code K2"
    by (auto dest: inj_onD)
  with QLJS_X_ERROR_TYPES_codes QLJS_X_ERROR_TYPES_length show ?thesis by blast
qed

text \<open>The theorem of C4 at the first two entries of the table.\<close>

theorem error_codes_unique_witness:
  "error_assignment_before_variable_declaration \<in> set QLJS_X_ERROR_TYPES \<and>
   error_assignment_to_const_global_variable \<in> set QLJS_X_ERROR_TYPES \<and>
   error_assignment_before_variable_declaration \<noteq> error_assignment_to_const_global_variable \<and>
   code error_assignment_before_variable_declaration = ''E001'' \<and>
   code error_assignment_to_const_global_variable = ''E002'' \<and>
   code error_assignment_before_variable_declaration \<noteq>
     code error_assignment_to_const_global_variable"
proof -
  have d: "error_assignment_before_variable_declaration \<noteq>
      error_assignment_to_const_global_variable"
    by (simp add: error_assignment_before_variable_declaration_def
        error_assignment_to_const_global_variable_def)
  have c: "code error_assignment_before_variable_declaration = ''E001'' \<and>
      code error_assignment_to_const_global_variable = ''E002''"
    by (simp add: error_assignment_before_variable_declaration_def
        error_assignment_to_const_global_variable_def)
  have "error_assignment_before_variable_declaration \<noteq>
      error_assignment_to_const_global_variable \<longrightarrow>
    code error_assignment_before_variable_declaration \<noteq>
      code error_assignment_to_const_global_variable"
    using error_codes_unique first_entry second_entry by blast
  with d c first_entry second_entry show ?thesis by blast
qed

subsection \<open>C5\<close>

text \<open>
  Claim C5, as amended. When a read returns a non-empty chunk (the pipe in the mode the
  build expects), the loop forwards it to \<^verbatim>\<open>append\<close>. On the build with \<^verbatim>\<open>poll\<close> the next
  thing it does is the readiness wait, and the next read comes after that wait has
  answered; only on the Windows build, which has no wait, does the next read follow the
  \<^verbatim>\<open>append\<close> directly.
\<close>

theorem chunk_then_wait_then_read:
  assumes "mode_ok b nb" and "\<not> done_flag s" and "is_chunk ev"
  shows "(target b = Have_poll \<longrightarrow>
      (\<exists>rest. trace (run_loop b nb polls k (ev # evs) s) =
         [Read_pipe ev, Append (chunk_of ev), Poll_pipe (polls k)] @ rest)) \<and>
    (target b = Have_poll \<and> poll_ready b (polls k) \<longrightarrow>
       trace (run_loop b nb polls k (ev # evs) s) =
         [Read_pipe ev, Append (chunk_of ev), Poll_pipe (polls k)] @
           trace (run_loop b nb polls (Suc k) evs s)) \<and>
    (target b = Windows \<longrightarrow>
       trace (run_loop b nb polls k (ev # evs) s) =
         [Read_pipe ev, Append (chunk_of ev)] @ trace (run_loop b nb polls (Suc k) evs s))"
  using run_loop_chunk_step [OF assms] .

text \<open>The theorem of C5 at the chunk \<open>"ab"\<close> followed by end-of-stream, on both builds.\<close>

theorem chunk_then_wait_then_read_witness:
  "mode_ok (posix_build True) True \<and> mode_ok (windows_build True) False \<and>
   \<not> done_flag event_loop_init \<and> is_chunk (chunk_read ''ab'') \<and>
   target (posix_build True) = Have_poll \<and> poll_ready (posix_build True) readable \<and>
   target (windows_build True) = Windows \<and>
   trace (run_loop (posix_build True) True (\<lambda>k. readable) 0 [chunk_read ''ab'', eof_read]
     event_loop_init) =
     [Read_pipe (chunk_read ''ab''), Append ''ab'', Poll_pipe readable, Read_pipe eof_read] \<and>
   trace (run_loop (windows_build True) False (\<lambda>k. readable) 0 [chunk_read ''ab'', eof_read]
     event_loop_init) =
     [Read_pipe (chunk_read ''ab''), Append ''ab'', Read_pipe eof_read]"
proof -
  have m: "mode_ok (posix_build True) True"
    by (simp add: mode_ok_def posix_build_def QLJS_EVENT_LOOP_READ_PIPE_NON_BLOCKING_def)
  have m': "mode_ok (windows_build True) False"
    by (simp add: mode_ok_def windows_build_def QLJS_EVENT_LOOP_READ_PIPE_NON_BLOCKING_def)
  have s: "\<not> done_flag event_loop_init" by (simp add: event_loop_init_def)
  have c: "is_chunk (chunk_read ''ab'')"
    by (simp add: is_chunk_def is_data_def chunk_read_def)
  have t: "target (posix_build True) = Have_poll \<and> poll_ready (posix_build True) readable"
    by (simp add: poll_ready_def posix_build_def readable_def POLLIN_def)
  have t': "target (windows_build True) = Windows" by (simp add: windows_build_def)
  have v: "chunk_of (chunk_read ''ab'') = ''ab''" by (simp add: chunk_of_def chunk_read_def)
  have r: "trace (run_loop (posix_build True) True (\<lambda>k. readable) (Suc 0) [eof_read]
      event_loop_init) = [Read_pipe eof_read]"
    using s read_from_pipe_eof [OF m, of eof_read event_loop_init]
    by (simp add: is_eof_def eof_read_def)
  have r': "trace (run_loop (windows_build True) False (\<lambda>k. readable) (Suc 0) [eof_read]
      event_loop_init) = [Read_pipe eof_read]"
    using s read_from_pipe_eof [OF m', of eof_read event_loop_init]
    by (simp add: is_eof_def eof_read_def)
  from chunk_then_wait_then_read [OF m s c, of "\<lambda>k. readable" 0 "[eof_read]"]
    chunk_then_wait_then_read [OF m' s c, of "\<lambda>k. readable" 0 "[eof_read]"]
    m m' s c t t' v r r'
  show ?thesis by simp
qed

text \<open>
  Claim C5 as stated fails on the build with \<^verbatim>\<open>poll\<close>: after the chunk \<open>"ab"\<close> is
  forwarded, the readiness wait comes before the next read.
\<close>

theorem chunk_then_wait_then_read_counterexample:
  "\<not> reads_follow_appends
      (trace (run (posix_build True) True [chunk_read ''ab'', eof_read] (\<lambda>k. readable)
         event_loop_init)) \<and>
   trace (run (posix_build True) True [chunk_read ''ab'', eof_read] (\<lambda>k. readable)
      event_loop_init) =
     [Read_pipe (chunk_read ''ab''), Append ''ab'', Poll_pipe readable, Read_pipe eof_read]"
  by code_simp

subsection \<open>C6\<close>

text \<open>
  Claim C6. The state of the loop is its completion flag, so there are two states: flag
  clear (running, the state of a fresh loop) and flag set (done). A read sets the flag
  exactly when it is at end-of-file and never clears it; \<^verbatim>\<open>run\<close> never clears it either,
  and leaves it set only if it was set before or a read of the run was at end-of-file.
  \<^verbatim>\<open>run\<close> returns exactly when it leaves the flag set, so end-of-stream is the only way
  for a running loop to return.
\<close>

theorem two_states_done_only_by_end_of_stream:
  "(\<forall>s :: event_loop. s = \<lparr>done_flag = False\<rparr> \<or> s = \<lparr>done_flag = True\<rparr>) \<and>
   \<not> done_flag event_loop_init \<and>
   (read_from_pipe b nb ev s = Ok s' tr \<longrightarrow> done_flag s' = (done_flag s \<or> is_eof ev)) \<and>
   (done_flag s \<longrightarrow> done_flag (final (run b nb evs polls s))) \<and>
   (done_flag (final (run b nb evs polls s)) \<longrightarrow>
      done_flag s \<or> (\<exists>ev. Read_pipe ev \<in> set (trace (run b nb evs polls s)) \<and> is_eof ev)) \<and>
   (outcome (run b nb evs polls s) = Returned \<longleftrightarrow> done_flag (final (run b nb evs polls s)))"
proof (intro conjI impI allI)
  fix t :: event_loop
  show "t = \<lparr>done_flag = False\<rparr> \<or> t = \<lparr>done_flag = True\<rparr>"
    by (cases t) auto
next
  show "\<not> done_flag event_loop_init" by (simp add: event_loop_init_def)
next
  assume "read_from_pipe b nb ev s = Ok s' tr"
  then show "done_flag s' = (done_flag s \<or> is_eof ev)" by (rule read_from_pipe_flag)
next
  assume "done_flag s"
  then show "done_flag (final (run b nb evs polls s))"
    by (simp add: run_def run_loop_done)
next
  assume d: "done_flag (final (run b nb evs polls s))"
  show "done_flag s \<or> (\<exists>ev. Read_pipe ev \<in> set (trace (run b nb evs polls s)) \<and> is_eof ev)"
  proof (cases "done_flag s")
    case True
    then show ?thesis by simp
  next
    case False
    from d have "outcome (run_loop b nb polls 0 evs s) = Returned"
      by (simp add: run_def run_loop_returned_iff_done)
    with run_loop_eof_iff [OF False, of b nb polls 0 evs] show ?thesis
      by (simp add: run_def)
  qed
next
  show "outcome (run b nb evs polls s) = Returned \<longleftrightarrow>
      done_flag (final (run b nb evs polls s))"
    unfolding run_def by (rule run_loop_returned_iff_done)
qed

text \<open>
  The theorem of C6 at a loop that reads one chunk and then end-of-stream, and at a read
  that is at end-of-file.
\<close>

theorem two_states_done_only_by_end_of_stream_witness:
  "read_from_pipe (posix_build True) True eof_read event_loop_init =
     Ok \<lparr>done_flag = True\<rparr> [Read_pipe eof_read] \<and>
   done_flag \<lparr>done_flag = True\<rparr> \<and>
   done_flag (final (run (posix_build True) True [chunk_read ''ab'', eof_read] (\<lambda>k. readable)
     \<lparr>done_flag = True\<rparr>)) \<and>
   done_flag (final (run (posix_build True) True [chunk_read ''ab'', eof_read] (\<lambda>k. readable)
     event_loop_init)) \<and>
   outcome (run (posix_build True) True [chunk_read ''ab'', eof_read] (\<lambda>k. readable)
     event_loop_init) = Returned \<and>
   (\<exists>ev. Read_pipe ev \<in> set (trace (run (posix_build True) True [chunk_read ''ab'', eof_read]
     (\<lambda>k. readable) event_loop_init)) \<and> is_eof ev)"
proof -
  have rd: "read_from_pipe (posix_build True) True eof_read event_loop_init =
      Ok \<lparr>done_flag = True\<rparr> [Read_pipe eof_read]"
    by code_simp
  have o: "outcome (run (posix_build True) True [chunk_read ''ab'', eof_read] (\<lambda>k. readable)
      event_loop_init) = Returned"
    by code_simp
  have i: "\<not> done_flag event_loop_init" by (simp add: event_loop_init_def)
  from two_states_done_only_by_end_of_stream
      [of "posix_build True" True eof_read event_loop_init "\<lparr>done_flag = True\<rparr>"
        "[Read_pipe eof_read]" "[chunk_read ''ab'', eof_read]" "\<lambda>k. readable"]
    two_states_done_only_by_end_of_stream
      [of "posix_build True" True eof_read "\<lparr>done_flag = True\<rparr>" "\<lparr>done_flag = True\<rparr>"
        "[Read_pipe eof_read]" "[chunk_read ''ab'', eof_read]" "\<lambda>k. readable"]
    rd o i
  show ?thesis by simp
qed

subsection \<open>C7\<close>

text \<open>
  Claim C7. The discarding reporter has a \<^verbatim>\<open>report\<close> for every entry of the table, and
  for every diagnostic value the call changes nothing: one call leaves everything as no
  call does, and two calls with the same value leave everything as one call does.
\<close>

theorem null_error_reporter_does_nothing:
  "\<forall>K\<in>set QLJS_X_ERROR_TYPES.
     null_error_reporter_report (name K) d w = Some w \<and>
     Option.bind (null_error_reporter_report (name K) d w)
       (null_error_reporter_report (name K) d) = Some w"
  by (simp add: null_error_reporter_report_def)

text \<open>The theorem of C7 at a value of the first entry of the table.\<close>

theorem null_error_reporter_does_nothing_witness:
  "error_assignment_before_variable_declaration \<in> set QLJS_X_ERROR_TYPES \<and>
   null_error_reporter_report ''error_assignment_before_variable_declaration''
     [(''assignment'', V_identifier 0 1 ''x''), (''declaration'', V_identifier 8 9 ''x'')]
     (0 :: nat) = Some 0 \<and>
   Option.bind
     (null_error_reporter_report ''error_assignment_before_variable_declaration''
        [(''assignment'', V_identifier 0 1 ''x''), (''declaration'', V_identifier 8 9 ''x'')]
        (0 :: nat))
     (null_error_reporter_report ''error_assignment_before_variable_declaration''
        [(''assignment'', V_identifier 0 1 ''x''), (''declaration'', V_identifier 8 9 ''x'')]) =
     Some 0"
proof -
  have n: "name error_assignment_before_variable_declaration =
      ''error_assignment_before_variable_declaration''"
    by (simp add: error_assignment_before_variable_declaration_def)
  from null_error_reporter_does_nothing
      [of "[(''assignment'', V_identifier 0 1 ''x''), (''declaration'', V_identifier 8 9 ''x'')]"
        "0 :: nat", THEN bspec, OF first_entry] first_entry n
  show ?thesis by simp
qed

subsection \<open>C8\<close>

text \<open>
  Claim C8. A read that fails with an error other than "no data yet", and is not at
  end-of-file, ends the process: whenever the loop gets to such a read the run is a
  crash, the trace is what came before plus at most that read, nothing that follows in
  the script is read or forwarded, and \<^verbatim>\<open>append\<close> is not called again. With the pipe in
  the mode the build expects, the crash is \<^verbatim>\<open>QLJS_UNIMPLEMENTED\<close> right after the read.
\<close>

theorem fatal_read_ends_process:
  assumes "is_fatal ev" and "outcome (run b nb pre polls s) = Pending"
  shows "\<exists>c tr. run b nb (pre @ ev # post) polls s =
      \<lparr>outcome = Crashed c, final = s, trace = trace (run b nb pre polls s) @ tr\<rparr> \<and>
      appends tr = [] \<and>
      appends (trace (run b nb (pre @ ev # post) polls s)) = appends (trace (run b nb pre polls s)) \<and>
      (mode_ok b nb \<longrightarrow> c = Unimplemented \<and> tr = [Read_pipe ev])"
proof -
  from run_loop_fatal [OF assms(1), of b nb polls 0 pre s post] assms(2)
  obtain c tr where a: "run b nb (pre @ ev # post) polls s =
      \<lparr>outcome = Crashed c, final = s, trace = trace (run b nb pre polls s) @ tr\<rparr>"
    "appends tr = []" "mode_ok b nb \<longrightarrow> c = Unimplemented \<and> tr = [Read_pipe ev]"
    unfolding run_def by blast
  have "appends (trace (run b nb (pre @ ev # post) polls s)) =
      appends (trace (run b nb pre polls s))"
    using a(1) a(2) by (simp add: appends_append)
  with a show ?thesis by blast
qed

text \<open>
  The theorem of C8 at the source \<open>"ab"\<close>, then a read failing with \<^verbatim>\<open>EIO\<close>, then \<open>"cd"\<close>
  and end-of-stream.
\<close>

theorem fatal_read_ends_process_witness:
  "is_fatal failed_read \<and>
   outcome (run (posix_build True) True [chunk_read ''ab''] (\<lambda>k. readable) event_loop_init) =
     Pending \<and>
   outcome (run (posix_build True) True
     ([chunk_read ''ab''] @ failed_read # [chunk_read ''cd'', eof_read])
     (\<lambda>k. readable) event_loop_init) = Crashed Unimplemented \<and>
   appends (trace (run (posix_build True) True
     ([chunk_read ''ab''] @ failed_read # [chunk_read ''cd'', eof_read])
     (\<lambda>k. readable) event_loop_init)) = [''ab'']"
proof -
  have f: "is_fatal failed_read"
    by (simp add: is_fatal_def is_error_def failed_read_def EAGAIN_def)
  have p: "outcome (run (posix_build True) True [chunk_read ''ab''] (\<lambda>k. readable)
      event_loop_init) = Pending"
    by code_simp
  have a: "appends (trace (run (posix_build True) True [chunk_read ''ab''] (\<lambda>k. readable)
      event_loop_init)) = [''ab'']"
    by code_simp
  have m: "mode_ok (posix_build True) True"
    by (simp add: mode_ok_def posix_build_def QLJS_EVENT_LOOP_READ_PIPE_NON_BLOCKING_def)
  from fatal_read_ends_process [OF f p, of "[chunk_read ''cd'', eof_read]"] m
  obtain c tr where r: "run (posix_build True) True
      ([chunk_read ''ab''] @ failed_read # [chunk_read ''cd'', eof_read])
      (\<lambda>k. readable) event_loop_init =
      \<lparr>outcome = Crashed c, final = event_loop_init,
        trace = trace (run (posix_build True) True [chunk_read ''ab''] (\<lambda>k. readable)
          event_loop_init) @ tr\<rparr>"
    "c = Unimplemented" "tr = [Read_pipe failed_read]"
    by blast
  have "outcome (run (posix_build True) True
      ([chunk_read ''ab''] @ failed_read # [chunk_read ''cd'', eof_read])
      (\<lambda>k. readable) event_loop_init) = Crashed Unimplemented"
    using r by simp
  moreover have "appends (trace (run (posix_build True) True
      ([chunk_read ''ab''] @ failed_read # [chunk_read ''cd'', eof_read])
      (\<lambda>k. readable) event_loop_init)) = [''ab'']"
    using r a by (simp add: appends_append)
  ultimately show ?thesis using f p by blast
qed

subsection \<open>C9\<close>

text \<open>
  Claim C9. For every entry of the table, the message template is exactly one primary
  message (\<^verbatim>\<open>.error\<close> or \<^verbatim>\<open>.warning\<close>) followed by zero or more notes; every argument of
  every message names fields the structure declares, those of a note being fields as
  they are and those of a primary message fields or a span or string made from fields;
  and formatting a value of the kind gives one message per declared message: exactly the
  declared number of notes, and one message more in all.
\<close>

theorem message_templates_well_formed:
  "\<forall>K\<in>set QLJS_X_ERROR_TYPES.
     (\<exists>p ns. format_calls K = p # ns \<and> is_primary p \<and> list_all is_note ns \<and>
        declared_notes K = ns) \<and>
     (\<forall>c\<in>set (format_calls K). \<forall>a\<in>set (call_args c).
        arg_declared K a \<and> set (arg_fields a) \<subseteq> snd ` set (struct_body K) \<and>
        (is_note c \<longrightarrow> is_plain_field a)) \<and>
     (\<forall>d. length (formatted_notes (format_error K d)) = length (declared_notes K) \<and>
          length (format_error K d) = 1 + length (declared_notes K))"
proof
  fix K
  assume K: "K \<in> set QLJS_X_ERROR_TYPES"
  have t: "template_ok K"
    using QLJS_X_ERROR_TYPES_templates K by (simp add: list_all_iff)
  have a: "args_ok K"
    using QLJS_X_ERROR_TYPES_args K by (simp add: list_all_iff)
  from t obtain p ns where f: "format_calls K = p # ns" "is_primary p" "list_all is_note ns"
    by (auto simp: template_ok_def split: list.splits)
  have n: "declared_notes K = ns"
    using f primary_not_note filter_all_notes by (simp add: declared_notes_def)
  have 1: "\<exists>p ns. format_calls K = p # ns \<and> is_primary p \<and> list_all is_note ns \<and>
      declared_notes K = ns"
    using f n by blast
  have 2: "\<forall>c\<in>set (format_calls K). \<forall>a\<in>set (call_args c).
      arg_declared K a \<and> set (arg_fields a) \<subseteq> snd ` set (struct_body K) \<and>
      (is_note c \<longrightarrow> is_plain_field a)"
    using a arg_declared_fields by (auto simp: args_ok_def list_all_iff)
  have m1: "length (formatted_notes (format_error K d)) = length (declared_notes K)" for d
    by (simp add: format_error_def formatted_notes_count declared_notes_def)
  have m2: "length (format_error K d) = 1 + length (declared_notes K)" for d
    using f(1) n by (simp add: format_error_def)
  have 3: "\<forall>d. length (formatted_notes (format_error K d)) = length (declared_notes K) \<and>
      length (format_error K d) = 1 + length (declared_notes K)"
    using m1 m2 by blast
  from 1 2 3 show "(\<exists>p ns. format_calls K = p # ns \<and> is_primary p \<and> list_all is_note ns \<and>
        declared_notes K = ns) \<and>
     (\<forall>c\<in>set (format_calls K). \<forall>a\<in>set (call_args c).
        arg_declared K a \<and> set (arg_fields a) \<subseteq> snd ` set (struct_body K) \<and>
        (is_note c \<longrightarrow> is_plain_field a)) \<and>
     (\<forall>d. length (formatted_notes (format_error K d)) = length (declared_notes K) \<and>
          length (format_error K d) = 1 + length (declared_notes K))"
    by blast
qed

text \<open>
  The theorem of C9 at the first entry of the table, which has one note, and a value of
  it.
\<close>

theorem message_templates_well_formed_witness:
  "error_assignment_before_variable_declaration \<in> set QLJS_X_ERROR_TYPES \<and>
   declared_notes error_assignment_before_variable_declaration =
     [fmt_note ''variable declared here'' [Arg_field ''declaration'']] \<and>
   fmt_note ''variable declared here'' [Arg_field ''declaration'']
     \<in> set (format_calls error_assignment_before_variable_declaration) \<and>
   is_note (fmt_note ''variable declared here'' [Arg_field ''declaration'']) \<and>
   set (arg_fields (Arg_field ''declaration''))
     \<subseteq> snd ` set (struct_body error_assignment_before_variable_declaration) \<and>
   is_plain_field (Arg_field ''declaration'') \<and>
   length (formatted_notes (format_error error_assignment_before_variable_declaration
     [(''assignment'', V_identifier 0 1 ''x''), (''declaration'', V_identifier 8 9 ''x'')])) = 1"
proof -
  have d: "declared_notes error_assignment_before_variable_declaration =
      [fmt_note ''variable declared here'' [Arg_field ''declaration'']]"
    by (simp add: declared_notes_def error_assignment_before_variable_declaration_def
        is_note_def)
  have c: "fmt_note ''variable declared here'' [Arg_field ''declaration'']
      \<in> set (format_calls error_assignment_before_variable_declaration) \<and>
    is_note (fmt_note ''variable declared here'' [Arg_field ''declaration''])"
    by (simp add: error_assignment_before_variable_declaration_def is_note_def)
  from message_templates_well_formed [THEN bspec, OF first_entry] first_entry d c
  show ?thesis by force
qed

subsection \<open>C10\<close>

text \<open>
  Claim C10. On a loop whose completion flag is already set, \<^verbatim>\<open>run\<close> returns at once: it
  reads nothing, waits for nothing, calls \<^verbatim>\<open>append\<close> not once, and leaves the loop as it
  was.
\<close>

theorem run_when_done_is_noop:
  assumes "done_flag s"
  shows "run b nb evs polls s = \<lparr>outcome = Returned, final = s, trace = []\<rparr>"
  using assms by (simp add: run_def run_loop_done)

text \<open>
  The theorem of C10 at a second call of \<^verbatim>\<open>run\<close>, after a first one that has seen
  end-of-stream, with more input waiting.
\<close>

theorem run_when_done_is_noop_witness:
  "done_flag (final (run (posix_build True) True [eof_read] (\<lambda>k. readable) event_loop_init)) \<and>
   run (posix_build True) True [chunk_read ''ab'', eof_read] (\<lambda>k. readable)
     (final (run (posix_build True) True [eof_read] (\<lambda>k. readable) event_loop_init)) =
     \<lparr>outcome = Returned,
      final = final (run (posix_build True) True [eof_read] (\<lambda>k. readable) event_loop_init),
      trace = []\<rparr>"
proof -
  have d: "done_flag (final (run (posix_build True) True [eof_read] (\<lambda>k. readable)
      event_loop_init))"
    by code_simp
  from run_when_done_is_noop [OF d, of "posix_build True" True "[chunk_read ''ab'', eof_read]"
      "\<lambda>k. readable"] d
  show ?thesis by simp
qed

end
